theory Spec2Isabelle
  imports Complex_Main
begin

section \<open>Reconnect backoff (bridge/reconnect.ts)\<close>

text \<open>
  Instants are milliseconds since the epoch (\<open>Date.getTime()\<close>), durations are
  milliseconds. Delays handed to \<open>setTimeout\<close> are JavaScript numbers; they are
  modelled as reals, so the arithmetic below is exact.
\<close>

type_synonym instant = int

record BackoffConfig =
  baseDelayMs :: real
  maxDelayMs :: real

text \<open>
  \<open>calculateBackoff(attempt, config)\<close>. The value of \<open>Math.random()\<close> is the
  extra argument \<open>rnd\<close>; the runtime draws it from \<open>[0, 1)\<close>.
\<close>

definition calculateBackoff :: "nat \<Rightarrow> BackoffConfig \<Rightarrow> real \<Rightarrow> real" where
  "calculateBackoff attempt config rnd =
     (let exponentialDelay = min (baseDelayMs config * 2 ^ attempt) (maxDelayMs config);
          jitterFactor = 1 + (rnd * 2 - 1) * 0.2
      in exponentialDelay * jitterFactor)"

text \<open>\<open>isRetryWindowExhausted(retryStartedAt, maxRetryMs)\<close>, with \<open>Date.now()\<close> as \<open>now\<close>.\<close>

definition isRetryWindowExhausted :: "instant \<Rightarrow> real \<Rightarrow> instant \<Rightarrow> bool" where
  "isRetryWindowExhausted retryStartedAt maxRetryMs now \<longleftrightarrow>
     real_of_int (now - retryStartedAt) > maxRetryMs"


section \<open>JavaScript helpers\<close>

text \<open>
  The remainder operator \<open>%\<close> of JavaScript truncates towards zero: the result has the
  sign of the dividend.
\<close>

definition js_rem :: "int \<Rightarrow> int \<Rightarrow> int" where
  "js_rem a b = sgn a * (\<bar>a\<bar> mod \<bar>b\<bar>)"

text \<open>Decimal rendering of an integer, as a template literal \<open>`${n}`\<close> renders it.\<close>

definition digit_char :: "nat \<Rightarrow> char" where
  "digit_char d = ''0123456789'' ! d"

fun show_nat :: "nat \<Rightarrow> string" where
  "show_nat n = (if n < 10 then [digit_char n] else show_nat (n div 10) @ [digit_char (n mod 10)])"

declare show_nat.simps [simp del]

definition show_int :: "int \<Rightarrow> string" where
  "show_int i = (if i < 0 then CHR ''-'' # show_nat (nat (- i)) else show_nat (nat i))"

text \<open>
  \<open>s.split(c)\<close> for a one-character separator: every separator ends a part, so the
  result is never empty and \<open>.split(c)\<close> is \<open>[]\<close>.
\<close>

fun split_on :: "char \<Rightarrow> string \<Rightarrow> string list" where
  "split_on c [] = [[]]"
| "split_on c (x # xs) =
     (if x = c then [] # split_on c xs
      else (case split_on c xs of
              part # parts \<Rightarrow> (x # part) # parts
            | [] \<Rightarrow> [[x]]))"

text \<open>\<open>parts.join(c)\<close> for a one-character separator.\<close>

fun join_with :: "char \<Rightarrow> string list \<Rightarrow> string" where
  "join_with c [] = []"
| "join_with c [p] = p"
| "join_with c (p # q # ps) = p @ c # join_with c (q # ps)"

text \<open>A value is truthy as a string when it is present and not the empty string.\<close>

definition truthy :: "string option \<Rightarrow> bool" where
  "truthy v \<longleftrightarrow> (case v of None \<Rightarrow> False | Some s \<Rightarrow> s \<noteq> [])"


section \<open>The store (db/schema.ts)\<close>

datatype status = Pending | Sent | Delivered | Failed | Cancelled

record scheduledMessage =
  msg_id :: string
  contactId :: "string option"
  groupId :: "string option"
  recurringRuleId :: "string option"
  content :: string
  scheduledAt :: instant
  status :: status
  whatsappMessageId :: "string option"
  sentAt :: "instant option"
  deliveredAt :: "instant option"
  failedAt :: "instant option"
  failureReason :: "string option"
  attempts :: int
  mediaUrl :: "string option"
  mediaType :: "string option"
  createdAt :: instant
  updatedAt :: instant

record contact =
  contact_id :: string
  phone :: string

text \<open>
  A table is the list of its rows. \<open>UPDATE ... WHERE p SET f\<close> rewrites every row that
  satisfies \<open>p\<close>; \<open>.returning().get()\<close> gives the first rewritten row, or nothing when
  no row matched; \<open>SELECT ... WHERE p\<close> with \<open>.get()\<close> gives the first matching row.
\<close>

definition update_where :: "('r \<Rightarrow> bool) \<Rightarrow> ('r \<Rightarrow> 'r) \<Rightarrow> 'r list \<Rightarrow> 'r list" where
  "update_where p f rows = map (\<lambda>r. if p r then f r else r) rows"

definition returning_get :: "('r \<Rightarrow> bool) \<Rightarrow> ('r \<Rightarrow> 'r) \<Rightarrow> 'r list \<Rightarrow> 'r option" where
  "returning_get p f rows = map_option f (find p rows)"


section \<open>Rate limiter (rate-limit/rate-limiter.ts)\<close>

record RateLimitConfig =
  daily_cap :: int
  warn_threshold_pct :: int

text \<open>\<open>getTodayIST()\<close>, with the clock reading \<open>new Date().getTime()\<close> as \<open>now\<close>.\<close>

definition getTodayIST :: "instant \<Rightarrow> instant" where
  "getTodayIST now =
     (let istOffsetMs = 19800000;
          istMs = now + istOffsetMs;
          istMidnight = istMs - js_rem istMs (24 * 60 * 60 * 1000)
      in istMidnight - istOffsetMs)"

definition getNextMidnightIST :: "instant \<Rightarrow> instant" where
  "getNextMidnightIST now = getTodayIST now + 24 * 60 * 60 * 1000"

text \<open>
  The value the ORM stores for a \<open>Date\<close> in a column of mode \<open>'timestamp'\<close>, as
  \<open>sent_at\<close> is declared in db/schema.ts: whole seconds,
  \<open>Math.floor(date.getTime() / 1000)\<close>.
\<close>

definition mapToDriverValue :: "instant \<Rightarrow> int" where
  "mapToDriverValue t = t div 1000"

text \<open>
  The row filter of \<open>getSentTodayCount\<close>, a raw SQL fragment:
  \<open>sent_at >= todayStartMs AND status IN ('sent', 'delivered')\<close>. The parameter
  is bound as it is, in milliseconds, and compared with the stored value of the
  column, in seconds. A row whose \<open>sent_at\<close> is NULL does not satisfy the
  comparison.
\<close>

definition sentTodayRow :: "instant \<Rightarrow> scheduledMessage \<Rightarrow> bool" where
  "sentTodayRow todayStartMs m \<longleftrightarrow>
     (case sentAt m of None \<Rightarrow> False | Some t \<Rightarrow> mapToDriverValue t \<ge> todayStartMs)
     \<and> (status m = Sent \<or> status m = Delivered)"

definition getSentTodayCount :: "scheduledMessage list \<Rightarrow> instant \<Rightarrow> int" where
  "getSentTodayCount msgs now =
     (let todayStartMs = getTodayIST now
      in int (length (filter (sentTodayRow todayStartMs) msgs)))"

record CanSendResult =
  allowed :: bool
  remaining :: int
  sentToday :: int
  dailyCap :: int

definition canSend :: "RateLimitConfig \<Rightarrow> scheduledMessage list \<Rightarrow> instant \<Rightarrow> CanSendResult" where
  "canSend config msgs now =
     (let sentToday = getSentTodayCount msgs now;
          remaining = max 0 (daily_cap config - sentToday)
      in \<lparr>allowed = sentToday < daily_cap config,
          remaining = remaining,
          sentToday = sentToday,
          dailyCap = daily_cap config\<rparr>)"

text \<open>Everything the components broadcast to the web-socket clients.\<close>

datatype event =
    RateLimitReached int int instant
  | RateLimitWarning int int int
  | MessageFailed string string instant
  | MessageSent string instant
  | MessageStatus string status instant

definition warnThreshold :: "RateLimitConfig \<Rightarrow> int" where
  "warnThreshold config = (daily_cap config * warn_threshold_pct config) div 100"

text \<open>\<open>checkAndWarn()\<close>: the events it broadcasts, in order.\<close>

definition checkAndWarn :: "RateLimitConfig \<Rightarrow> scheduledMessage list \<Rightarrow> instant \<Rightarrow> event list" where
  "checkAndWarn config msgs now =
     (let result = canSend config msgs now
      in if sentToday result \<ge> daily_cap config
         then [RateLimitReached (sentToday result) (daily_cap config) (getNextMidnightIST now)]
         else if sentToday result \<ge> warnThreshold config
         then [RateLimitWarning (sentToday result) (daily_cap config) (remaining result)]
         else [])"

text \<open>
  The window the specification describes: the current IST day
  \<open>[IST-midnight, IST-midnight + 24h)\<close>.
\<close>

definition inCurrentISTDay :: "instant \<Rightarrow> instant \<Rightarrow> bool" where
  "inCurrentISTDay now t \<longleftrightarrow> getTodayIST now \<le> t \<and> t < getTodayIST now + 24 * 60 * 60 * 1000"

definition countInCurrentISTDay :: "scheduledMessage list \<Rightarrow> instant \<Rightarrow> int" where
  "countInCurrentISTDay msgs now =
     int (length (filter (\<lambda>m. (case sentAt m of None \<Rightarrow> False | Some t \<Rightarrow> inCurrentISTDay now t)
                              \<and> (status m = Sent \<or> status m = Delivered)) msgs))"


section \<open>Dispatcher (scheduler/worker.ts)\<close>

datatype payload =
    Text string
  | Image string string
  | Video string string
  | Audio string
  | Document string string string

text \<open>
  \<open>buildMessagePayload(content, mediaUrl, mediaType)\<close>. \<open>decodeURIComponent\<close> is the
  built-in of the runtime, \<open>None\<close> where it throws a URIError. \<open>Inl\<close> carries the
  message of a thrown error.
\<close>

definition buildMessagePayload ::
  "(string \<Rightarrow> string option) \<Rightarrow> string \<Rightarrow> string option \<Rightarrow> string option \<Rightarrow> string + payload" where
  "buildMessagePayload decodeURIComponent body url_opt type_opt =
     (case (url_opt, type_opt) of
        (Some url, Some ty) \<Rightarrow>
          if url = [] \<or> ty = [] then Inr (Text body)
          else if ty = ''image'' then Inr (Image url body)
          else if ty = ''video'' then Inr (Video url body)
          else if ty = ''audio'' then Inr (Audio url)
          else if ty = ''document'' then
            (case decodeURIComponent (hd (split_on CHR ''?'' (last (split_on CHR ''/'' url)))) of
               None \<Rightarrow> Inl ''URI malformed''
             | Some fileName \<Rightarrow> Inr (Document url body fileName))
          else Inr (Text body)
      | _ \<Rightarrow> Inr (Text body))"

text \<open>
  The world the dispatcher and the scheduling service act on: the two tables, the
  delayed jobs of the queue (job id and delay), the calls made to
  \<open>sock.sendMessage\<close> and the events broadcast, both in order.
\<close>

record world =
  messages :: "scheduledMessage list"
  contacts :: "contact list"
  jobs :: "(string \<times> int) list"
  outbox :: "(string \<times> payload) list"
  broadcasts :: "event list"

text \<open>
  A socket is its \<open>sendMessage\<close>: \<open>Inl\<close> the message of the error it rejects with,
  \<open>Inr\<close> the \<open>result?.key?.id\<close> of the provider.
\<close>

type_synonym socket = "string \<Rightarrow> payload \<Rightarrow> string + string option"

text \<open>
  A run of a job handler either returns, throws, or is suspended at
  \<open>await sock.sendMessage(jid, payload)\<close> holding the row it read.
\<close>

datatype job_run =
    Completed world
  | JobFailed string world
  | Awaiting world scheduledMessage string payload

text \<open>The JID resolution of \<open>processSendJob\<close>.\<close>

definition resolveJid :: "world \<Rightarrow> scheduledMessage \<Rightarrow> string + string" where
  "resolveJid w msg =
     (if truthy (groupId msg) then Inr (the (groupId msg))
      else if truthy (contactId msg) then
        (case find (\<lambda>c. contact_id c = the (contactId msg)) (contacts w) of
           None \<Rightarrow> Inl (''Contact '' @ the (contactId msg) @ '' not found'')
         | Some c \<Rightarrow> Inr (remove1 CHR ''+'' (phone c) @ ''@s.whatsapp.net''))
      else Inl ''Message has neither contactId nor groupId'')"

definition capReachedReason :: "int \<Rightarrow> int \<Rightarrow> string" where
  "capReachedReason sent cap =
     ''Daily message cap reached ('' @ show_int sent @ ''/'' @ show_int cap @ '')''"

text \<open>\<open>processSendJob\<close> up to the call of \<open>sock.sendMessage\<close>.\<close>

definition processSendJob_begin ::
  "(string \<Rightarrow> string option) \<Rightarrow> socket option \<Rightarrow> RateLimitConfig \<Rightarrow> world \<Rightarrow> string \<Rightarrow> instant
     \<Rightarrow> job_run" where
  "processSendJob_begin decodeURIComponent getSocket config w scheduledMessageId now =
     (case find (\<lambda>m. msg_id m = scheduledMessageId) (messages w) of
        None \<Rightarrow> Completed w
      | Some msg \<Rightarrow>
          if status msg = Cancelled then Completed w
          else
            let r = canSend config (messages w) now in
            if \<not> allowed r then
              (let reason = capReachedReason (sentToday r) (dailyCap r);
                   msgs' = update_where (\<lambda>m. msg_id m = msg_id msg)
                             (\<lambda>m. m\<lparr>status := Failed, failedAt := Some now,
                                     failureReason := Some reason, updatedAt := now\<rparr>)
                             (messages w)
               in Completed (w\<lparr>messages := msgs',
                                broadcasts := broadcasts w @ [MessageFailed (msg_id msg) reason now]
                                                @ checkAndWarn config msgs' now\<rparr>))
            else
              (case resolveJid w msg of
                 Inl e \<Rightarrow> JobFailed e w
               | Inr jid \<Rightarrow>
                   (case getSocket of
                      None \<Rightarrow> JobFailed ''WhatsApp not connected'' w
                    | Some sock \<Rightarrow>
                        (case buildMessagePayload decodeURIComponent (content msg) (mediaUrl msg)
                                (mediaType msg) of
                           Inl e \<Rightarrow> JobFailed e w
                         | Inr payload \<Rightarrow>
                             Awaiting (w\<lparr>outbox := outbox w @ [(jid, payload)]\<rparr>) msg jid payload))))"

text \<open>
  \<open>processSendJob\<close> from the moment \<open>sock.sendMessage\<close> settles: \<open>msg\<close> is the row
  read before the call, \<open>result\<close> what the call settled with, \<open>now\<close> the clock then.
  The random pause that ends the function changes no state and is left out.
\<close>

definition processSendJob_finish ::
  "RateLimitConfig \<Rightarrow> world \<Rightarrow> scheduledMessage \<Rightarrow> string + string option \<Rightarrow> instant \<Rightarrow> job_run" where
  "processSendJob_finish config w msg result now =
     (case result of
        Inl e \<Rightarrow> JobFailed e w
      | Inr keyId \<Rightarrow>
          (let msgs' = update_where (\<lambda>m. msg_id m = msg_id msg)
                         (\<lambda>m. m\<lparr>status := Sent, whatsappMessageId := keyId, sentAt := Some now,
                                 attempts := attempts msg + 1, updatedAt := now\<rparr>)
                         (messages w)
           in Completed (w\<lparr>messages := msgs',
                            broadcasts := broadcasts w @ [MessageSent (msg_id msg) now]
                                            @ checkAndWarn config msgs' now\<rparr>)))"

text \<open>The whole of \<open>processSendJob\<close>, when nothing else runs while it awaits the send.\<close>

definition processSendJob ::
  "(string \<Rightarrow> string option) \<Rightarrow> socket option \<Rightarrow> RateLimitConfig \<Rightarrow> world \<Rightarrow> string \<Rightarrow> instant
     \<Rightarrow> instant \<Rightarrow> job_run" where
  "processSendJob decodeURIComponent getSocket config w scheduledMessageId now now' =
     (case processSendJob_begin decodeURIComponent getSocket config w scheduledMessageId now of
        Awaiting w' msg jid payload \<Rightarrow>
          (case getSocket of
             None \<Rightarrow> JobFailed ''WhatsApp not connected'' w'
           | Some sock \<Rightarrow> processSendJob_finish config w' msg (sock jid payload) now')
      | r \<Rightarrow> r)"

text \<open>
  The handler of the worker's \<open>failed\<close> event: \<open>job\<close> with its
  \<open>data.scheduledMessageId\<close> and \<open>attemptsMade\<close>, and the message of the error.
\<close>

record job =
  data_scheduledMessageId :: "string option"
  attemptsMade :: "int option"

definition onJobFailed :: "world \<Rightarrow> job option \<Rightarrow> string \<Rightarrow> instant \<Rightarrow> world" where
  "onJobFailed w job error_message now =
     (case job of
        None \<Rightarrow> w
      | Some j \<Rightarrow>
          if \<not> truthy (data_scheduledMessageId j) then w
          else
            let messageId = the (data_scheduledMessageId j) in
            w\<lparr>messages := update_where (\<lambda>m. msg_id m = messageId)
                             (\<lambda>m. m\<lparr>status := Failed, failedAt := Some now,
                                     failureReason := Some error_message,
                                     attempts := (case attemptsMade j of None \<Rightarrow> 0 | Some n \<Rightarrow> n) + 1,
                                     updatedAt := now\<rparr>)
                             (messages w),
              broadcasts := broadcasts w @ [MessageFailed messageId error_message now]\<rparr>)"


section \<open>Job queue helpers (scheduler/jobs.ts)\<close>

definition jobIdOf :: "string \<Rightarrow> string" where
  "jobIdOf messageId = ''msg-'' @ messageId"

text \<open>\<open>queue.add\<close> with a \<open>jobId\<close> the queue already holds adds nothing.\<close>

definition scheduleOneTimeJob :: "(string \<times> int) list \<Rightarrow> string \<Rightarrow> int \<Rightarrow> (string \<times> int) list" where
  "scheduleOneTimeJob q messageId delay =
     (if jobIdOf messageId \<in> fst ` set q then q else q @ [(jobIdOf messageId, max 0 delay)])"

definition cancelJob :: "(string \<times> int) list \<Rightarrow> string \<Rightarrow> (string \<times> int) list" where
  "cancelJob q messageId = filter (\<lambda>j. fst j \<noteq> jobIdOf messageId) q"


section \<open>Scheduling service: cancel and retry\<close>

definition cancelMessage :: "world \<Rightarrow> string \<Rightarrow> instant \<Rightarrow> scheduledMessage option \<times> world" where
  "cancelMessage w messageId now =
     (let p = (\<lambda>m. msg_id m = messageId \<and> status m = Pending);
          f = (\<lambda>m. m\<lparr>status := Cancelled, updatedAt := now\<rparr>);
          msg = returning_get p f (messages w);
          w' = w\<lparr>messages := update_where p f (messages w)\<rparr>
      in case msg of
           None \<Rightarrow> (None, w')
         | Some m \<Rightarrow> (Some m, w'\<lparr>jobs := cancelJob (jobs w') messageId\<rparr>))"

definition retryMessage :: "world \<Rightarrow> string \<Rightarrow> instant \<Rightarrow> scheduledMessage option \<times> world" where
  "retryMessage w messageId now =
     (let p = (\<lambda>m. msg_id m = messageId \<and> status m = Failed);
          f = (\<lambda>m. m\<lparr>status := Pending, attempts := 0, failedAt := None, failureReason := None,
                     scheduledAt := now, updatedAt := now\<rparr>);
          msg = returning_get p f (messages w);
          w' = w\<lparr>messages := update_where p f (messages w)\<rparr>
      in case msg of
           None \<Rightarrow> (None, w')
         | Some m \<Rightarrow> (Some m, w'\<lparr>jobs := scheduleOneTimeJob (jobs w') messageId 0\<rparr>))"


section \<open>Delivery listener (delivery/delivery.listener.ts)\<close>

text \<open>One element of a \<open>messages.update\<close> batch: \<open>key.id\<close> and \<open>update.status\<close>.\<close>

record message_update =
  key_id :: "string option"
  update_status :: "int option"

text \<open>The body of the loop for one update; \<open>now\<close> is the \<open>new Date()\<close> it takes.\<close>

definition handleUpdate :: "world \<Rightarrow> message_update \<Rightarrow> instant \<Rightarrow> world" where
  "handleUpdate w u now =
     (if (case update_status u of None \<Rightarrow> True | Some s \<Rightarrow> s = 0) \<or> \<not> truthy (key_id u) then w
      else if update_status u = Some 3 then
        (let p = (\<lambda>m. whatsappMessageId m = key_id u);
             f = (\<lambda>m. m\<lparr>status := Delivered, deliveredAt := Some now, updatedAt := now\<rparr>);
             msg = returning_get p f (messages w);
             w' = w\<lparr>messages := update_where p f (messages w)\<rparr>
         in case msg of
              None \<Rightarrow> w'
            | Some m \<Rightarrow> w'\<lparr>broadcasts := broadcasts w' @ [MessageStatus (msg_id m) Delivered now]\<rparr>)
      else w)"

fun onMessagesUpdate :: "world \<Rightarrow> (message_update \<times> instant) list \<Rightarrow> world" where
  "onMessagesUpdate w [] = w"
| "onMessagesUpdate w ((u, now) # updates) = onMessagesUpdate (handleUpdate w u now) updates"


section \<open>Connection manager (bridge/socket.ts)\<close>

datatype ConnectionStatus = Pairing | Connecting | Connected | Disconnected

text \<open>A Baileys socket, as far as the manager reads it: \<open>sock.user\<close> with id and name.\<close>

record wasocket =
  user :: "(string \<times> string option) option"

record ConnectionHealth =
  health_status :: ConnectionStatus
  uptime :: int
  health_connectedAt :: "instant option"
  health_lastDisconnect :: "(string \<times> int \<times> instant) option"
  reconnectAttempts :: nat
  health_account :: "(string \<times> string) option"

datatype bridge_event = StatusEvent ConnectionHealth | QrEvent string

text \<open>
  The fields of \<open>ConnectionManager\<close>, the rows of the \<open>auth_state\<close> table it clears,
  and what it has broadcast. \<open>reconnectTimer\<close> holds the delay of the pending
  \<open>setTimeout\<close>, if any.
\<close>

record manager =
  sock :: "wasocket option"
  reconnectAttempt :: nat
  reconnectTimer :: "real option"
  connectedAt :: "instant option"
  lastDisconnect :: "(string \<times> int \<times> instant) option"
  conn_status :: ConnectionStatus
  retryStartedAt :: "instant option"
  account :: "(string \<times> string) option"
  authState :: "(string \<times> string) list"
  bridge_broadcasts :: "bridge_event list"

record ReconnectConfig =
  max_retry_minutes :: real
  base_delay_ms :: real
  max_delay_ms :: real

definition maxRetryMs :: "ReconnectConfig \<Rightarrow> real" where
  "maxRetryMs config = max_retry_minutes config * 60 * 1000"

definition backoffConfig :: "ReconnectConfig \<Rightarrow> BackoffConfig" where
  "backoffConfig config = \<lparr>baseDelayMs = base_delay_ms config, maxDelayMs = max_delay_ms config\<rparr>"

text \<open>
  What a handler of the manager takes from outside while it runs: the clock read by
  \<open>new Date()\<close> and by \<open>Date.now()\<close>, the draw of \<open>Math.random()\<close>, the socket
  \<open>makeWASocket\<close> creates if \<open>connect()\<close> is called (\<open>None\<close> when loading the
  credentials or creating the socket throws), the name Baileys' \<open>DisconnectReason\<close>
  enumeration gives a code, and the data URL \<open>QRCode.toDataURL\<close> renders
  (\<open>None\<close> when it throws).
\<close>

record conn_env =
  new_Date :: instant
  Date_now :: instant
  random :: real
  created :: "wasocket option"
  reasonName :: "int \<Rightarrow> string option"
  toDataURL :: "string \<Rightarrow> string option"

text \<open>The state the field initialisers of the class give a new manager.\<close>

definition new_manager :: "(string \<times> string) list \<Rightarrow> manager" where
  "new_manager rows =
     \<lparr>sock = None, reconnectAttempt = 0, reconnectTimer = None, connectedAt = None,
      lastDisconnect = None, conn_status = Pairing, retryStartedAt = None, account = None,
      authState = rows, bridge_broadcasts = []\<rparr>"

definition getHealth :: "manager \<Rightarrow> instant \<Rightarrow> ConnectionHealth" where
  "getHealth m now =
     \<lparr>health_status = conn_status m,
      uptime = (case connectedAt m of None \<Rightarrow> 0 | Some c \<Rightarrow> (now - c) div 1000),
      health_connectedAt = connectedAt m,
      health_lastDisconnect = lastDisconnect m,
      reconnectAttempts = reconnectAttempt m,
      health_account = account m\<rparr>"

definition broadcastStatus :: "conn_env \<Rightarrow> manager \<Rightarrow> manager" where
  "broadcastStatus env m =
     m\<lparr>bridge_broadcasts := bridge_broadcasts m @ [StatusEvent (getHealth m (Date_now env))]\<rparr>"

definition cleanupSocket :: "manager \<Rightarrow> manager" where
  "cleanupSocket m = m\<lparr>reconnectTimer := None, sock := None\<rparr>"

text \<open>
  \<open>connect()\<close>: the old socket is cleaned up first; then the new socket is stored,
  unless creating it throws. The second component tells whether the promise was
  rejected.
\<close>

definition connect :: "conn_env \<Rightarrow> manager \<Rightarrow> manager \<times> bool" where
  "connect env m =
     (case created env of
        None \<Rightarrow> (cleanupSocket m, True)
      | Some s \<Rightarrow> ((cleanupSocket m)\<lparr>sock := Some s\<rparr>, False))"

definition getSocket :: "manager \<Rightarrow> wasocket option" where
  "getSocket m = sock m"

definition clearAuthState :: "manager \<Rightarrow> manager" where
  "clearAuthState m = m\<lparr>authState := []\<rparr>"

definition resetToPairing :: "conn_env \<Rightarrow> manager \<Rightarrow> manager" where
  "resetToPairing env m =
     fst (connect env (m\<lparr>reconnectAttempt := 0, retryStartedAt := None, conn_status := Pairing,
                          account := None, connectedAt := None\<rparr>))"

definition scheduleReconnect :: "manager \<Rightarrow> real \<Rightarrow> manager" where
  "scheduleReconnect m delayMs = m\<lparr>reconnectTimer := Some delayMs\<rparr>"

definition reconnectWithBackoff :: "ReconnectConfig \<Rightarrow> conn_env \<Rightarrow> manager \<Rightarrow> manager" where
  "reconnectWithBackoff config env m0 =
     (let m = (if retryStartedAt m0 = None then m0\<lparr>retryStartedAt := Some (new_Date env)\<rparr> else m0)
      in if isRetryWindowExhausted (the (retryStartedAt m)) (maxRetryMs config) (Date_now env)
         then resetToPairing env (clearAuthState m)
         else
           let delay = calculateBackoff (reconnectAttempt m) (backoffConfig config) (random env);
               m1 = m\<lparr>reconnectAttempt := reconnectAttempt m + 1\<rparr>;
               m2 = broadcastStatus env (m1\<lparr>conn_status := Connecting\<rparr>)
           in scheduleReconnect m2 delay)"

text \<open>
  \<open>handleDisconnect(statusCode)\<close>. The cases of the switch are the members
  \<open>loggedOut\<close> (401), \<open>connectionReplaced\<close> (440), \<open>restartRequired\<close> (515) and
  \<open>forbidden\<close> (403) of \<open>DisconnectReason\<close>.
\<close>

definition handleDisconnect :: "ReconnectConfig \<Rightarrow> conn_env \<Rightarrow> manager \<Rightarrow> int \<Rightarrow> manager" where
  "handleDisconnect config env m statusCode =
     (if statusCode = 401 then resetToPairing env (clearAuthState m)
      else if statusCode = 440 then broadcastStatus env (m\<lparr>conn_status := Disconnected\<rparr>)
      else if statusCode = 515 then scheduleReconnect m 0
      else if statusCode = 403 then resetToPairing env (clearAuthState m)
      else reconnectWithBackoff config env m)"

text \<open>
  One \<open>connection.update\<close> event: \<open>connection\<close> (\<open>open\<close>, \<open>close\<close> or something
  else), the status code of \<open>lastDisconnect.error\<close> if there is one, and \<open>qr\<close>.
  Logging, the rendering of the QR code on the terminal and the calls of the
  registered \<open>onConnected\<close> callbacks change no field of the manager and are left
  out.
\<close>

datatype connection = Open | Close | Other

record connection_update =
  upd_connection :: connection
  upd_statusCode :: "int option"
  upd_qr :: "string option"

definition handleConnectionUpdate ::
  "ReconnectConfig \<Rightarrow> conn_env \<Rightarrow> manager \<Rightarrow> connection_update \<Rightarrow> manager" where
  "handleConnectionUpdate config env m0 u =
     (let m1 = (if truthy (upd_qr u)
                then (let m = m0\<lparr>conn_status := Pairing, reconnectAttempt := 0\<rparr>
                      in case toDataURL env (the (upd_qr u)) of
                           None \<Rightarrow> m
                         | Some url \<Rightarrow> m\<lparr>bridge_broadcasts := bridge_broadcasts m @ [QrEvent url]\<rparr>)
                else m0);
          m2 = (if upd_connection u = Open
                then (let m = m1\<lparr>conn_status := Connected, connectedAt := Some (new_Date env),
                                  reconnectAttempt := 0, retryStartedAt := None\<rparr>;
                          m' = (case sock m of
                                  Some s \<Rightarrow>
                                    (case user s of
                                       Some (uid, uname) \<Rightarrow>
                                         m\<lparr>account := Some (hd (split_on CHR '':'' uid),
                                                              case uname of None \<Rightarrow> [] | Some n \<Rightarrow> n)\<rparr>
                                     | None \<Rightarrow> m)
                                | None \<Rightarrow> m)
                      in broadcastStatus env m')
                else m1)
      in if upd_connection u = Close
         then (let statusCode = (case upd_statusCode u of None \<Rightarrow> 428 | Some c \<Rightarrow> c);
                   name = (case reasonName env statusCode of None \<Rightarrow> ''unknown'' | Some n \<Rightarrow> n);
                   m3 = broadcastStatus env
                          (m2\<lparr>lastDisconnect := Some (name, statusCode, new_Date env)\<rparr>)
               in handleDisconnect config env m3 statusCode)
         else m2)"

text \<open>
  The callback of the reconnect timer: it clears the timer and connects; when the
  connect is rejected it goes through \<open>reconnectWithBackoff\<close> again.
\<close>

definition reconnectTimerFired :: "ReconnectConfig \<Rightarrow> conn_env \<Rightarrow> manager \<Rightarrow> manager" where
  "reconnectTimerFired config env m =
     (let (m', rejected) = connect env (m\<lparr>reconnectTimer := None\<rparr>)
      in if rejected then reconnectWithBackoff config env m' else m')"


section \<open>Recurring rules (scheduling service)\<close>

record CronParams =
  sendHour :: "int option"
  sendMinute :: "int option"
  dayOfWeek :: "int option"
  dayOfMonth :: "int option"
  month :: "int option"

text \<open>
  \<open>buildCronExpression(type, params, defaultSendHour)\<close>; \<open>Inl\<close> carries the message of
  the error thrown for an unknown type.
\<close>

definition buildCronExpression :: "string \<Rightarrow> 'a CronParams_scheme \<Rightarrow> int \<Rightarrow> string + string" where
  "buildCronExpression ty params defaultSendHour =
     (let hour = (case sendHour params of None \<Rightarrow> defaultSendHour | Some h \<Rightarrow> h);
          minute = (case sendMinute params of None \<Rightarrow> 0 | Some n \<Rightarrow> n);
          dom = (case dayOfMonth params of None \<Rightarrow> 1 | Some d \<Rightarrow> d)
      in if ty = ''daily'' then
           Inr (''0 '' @ show_int minute @ '' '' @ show_int hour @ '' * * *'')
         else if ty = ''weekly'' then
           Inr (''0 '' @ show_int minute @ '' '' @ show_int hour @ '' * * ''
                  @ show_int (case dayOfWeek params of None \<Rightarrow> 1 | Some d \<Rightarrow> d))
         else if ty = ''monthly'' then
           (let day = (if dom > 28 then ''L'' else show_int dom)
            in Inr (''0 '' @ show_int minute @ '' '' @ show_int hour @ '' '' @ day @ '' * *''))
         else if ty = ''yearly'' \<or> ty = ''birthday'' then
           Inr (''0 '' @ show_int minute @ '' '' @ show_int hour @ '' '' @ show_int dom @ '' ''
                  @ show_int (case month params of None \<Rightarrow> 1 | Some n \<Rightarrow> n) @ '' *'')
         else if ty = ''custom'' then Inr []
         else Inl (''Unknown recurring type: '' @ ty))"

record recurringRule =
  rule_id :: string
  rule_contactId :: string
  rule_type :: string
  rule_content :: string
  cronExpression :: string
  intervalDays :: "int option"
  endDate :: "instant option"
  maxOccurrences :: "int option"
  occurrenceCount :: int
  enabled :: bool
  lastFiredAt :: "instant option"
  rule_mediaUrl :: "string option"
  rule_mediaType :: "string option"
  rule_createdAt :: instant
  rule_updatedAt :: instant

text \<open>
  The patch of \<open>updateRecurringRule\<close>: the five scheduling parameters and the other
  optional fields. An absent field is \<open>None\<close>; a field that may also be \<open>null\<close> is
  \<open>Some None\<close> when it is \<open>null\<close>. \<open>endDate\<close> is given as the instant the string
  parses to, \<open>Some None\<close> standing for \<open>null\<close> and the empty string.
\<close>

record rule_updates = CronParams +
  upd_content :: "string option"
  upd_intervalDays :: "int option"
  upd_endDate :: "instant option option"
  upd_maxOccurrences :: "int option option"
  upd_enabled :: "bool option"
  upd_mediaUrl :: "string option option"
  upd_mediaType :: "string option option"

text \<open>The job schedulers of the queue, by scheduler id.\<close>

datatype repeat = Every int | Pattern string

record job_scheduler =
  repeat_opts :: repeat
  scheduler_endDate :: "instant option"
  scheduler_limit :: "int option"

definition upsertJobScheduler ::
  "(string \<times> job_scheduler) list \<Rightarrow> string \<Rightarrow> job_scheduler \<Rightarrow> (string \<times> job_scheduler) list" where
  "upsertJobScheduler q k v = (k, v) # filter (\<lambda>e. fst e \<noteq> k) q"

definition removeJobScheduler :: "(string \<times> job_scheduler) list \<Rightarrow> string \<Rightarrow> (string \<times> job_scheduler) list" where
  "removeJobScheduler q k = filter (\<lambda>e. fst e \<noteq> k) q"

record rule_world =
  rules :: "recurringRule list"
  schedulers :: "(string \<times> job_scheduler) list"

definition needsCronUpdate :: "rule_updates \<Rightarrow> bool" where
  "needsCronUpdate updates \<longleftrightarrow>
     sendHour updates \<noteq> None \<or> sendMinute updates \<noteq> None
     \<or> dayOfWeek updates \<noteq> None \<or> dayOfMonth updates \<noteq> None
     \<or> month updates \<noteq> None \<or> upd_intervalDays updates \<noteq> None"

text \<open>The \<open>setValues\<close> object of \<open>updateRecurringRule\<close>, as the change it makes to a row.\<close>

definition setValues :: "rule_updates \<Rightarrow> string option \<Rightarrow> instant \<Rightarrow> recurringRule \<Rightarrow> recurringRule" where
  "setValues updates newCronExpression now r =
     (let r1 = r\<lparr>rule_updatedAt := now\<rparr>;
          r2 = (case upd_content updates of None \<Rightarrow> r1 | Some c \<Rightarrow> r1\<lparr>rule_content := c\<rparr>);
          r3 = (case upd_intervalDays updates of None \<Rightarrow> r2 | Some n \<Rightarrow> r2\<lparr>intervalDays := Some n\<rparr>);
          r4 = (case upd_endDate updates of None \<Rightarrow> r3 | Some e \<Rightarrow> r3\<lparr>endDate := e\<rparr>);
          r5 = (case upd_maxOccurrences updates of None \<Rightarrow> r4 | Some n \<Rightarrow> r4\<lparr>maxOccurrences := n\<rparr>);
          r6 = (case upd_enabled updates of None \<Rightarrow> r5 | Some b \<Rightarrow> r5\<lparr>enabled := b\<rparr>);
          r7 = (case upd_mediaUrl updates of None \<Rightarrow> r6 | Some u \<Rightarrow> r6\<lparr>rule_mediaUrl := u\<rparr>);
          r8 = (case upd_mediaType updates of None \<Rightarrow> r7 | Some t \<Rightarrow> r7\<lparr>rule_mediaType := t\<rparr>)
      in case newCronExpression of None \<Rightarrow> r8 | Some c \<Rightarrow> r8\<lparr>cronExpression := c\<rparr>)"

definition everyDaysLabel :: "int \<Rightarrow> string" where
  "everyDaysLabel n = ''every-'' @ show_int n @ ''-days''"

definition schedulerId :: "string \<Rightarrow> string" where
  "schedulerId ruleId = ''recurring-'' @ ruleId"

text \<open>
  \<open>updateRecurringRule(ruleId, updates)\<close>, with the configured default send hour and
  the clock. \<open>Inl\<close> carries the message of the error \<open>buildCronExpression\<close> throws.
\<close>

definition updateRecurringRule ::
  "int \<Rightarrow> rule_world \<Rightarrow> string \<Rightarrow> rule_updates \<Rightarrow> instant \<Rightarrow> string + (recurringRule option \<times> rule_world)" where
  "updateRecurringRule defaultSendHour w ruleId updates now =
     (case find (\<lambda>r. rule_id r = ruleId) (rules w) of
        None \<Rightarrow> Inr (None, w)
      | Some existing \<Rightarrow>
          (case (if needsCronUpdate updates
                 then (case buildCronExpression (rule_type existing) (CronParams.truncate updates)
                              defaultSendHour of
                         Inl e \<Rightarrow> Inl e
                       | Inr newCron \<Rightarrow>
                           Inr (Some (if newCron \<noteq> [] then newCron
                                      else everyDaysLabel
                                             (case upd_intervalDays updates of
                                                Some n \<Rightarrow> n
                                              | None \<Rightarrow> (case intervalDays existing of
                                                           Some n \<Rightarrow> n | None \<Rightarrow> 1)))))
                 else Inr None) of
             Inl e \<Rightarrow> Inl e
           | Inr newCronExpression \<Rightarrow>
               (let p = (\<lambda>r. rule_id r = ruleId);
                    f = setValues updates newCronExpression now;
                    rule = returning_get p f (rules w);
                    w' = w\<lparr>rules := update_where p f (rules w)\<rparr>
                in case rule of
                     None \<Rightarrow> Inr (None, w')
                   | Some r \<Rightarrow>
                       if upd_enabled updates = Some False
                       then Inr (Some r, w'\<lparr>schedulers := removeJobScheduler (schedulers w') (schedulerId ruleId)\<rparr>)
                       else
                         (let cronExpr = (case newCronExpression of
                                            Some c \<Rightarrow> c | None \<Rightarrow> cronExpression existing);
                              isCustom = (rule_type existing = ''custom'');
                              opts = (if isCustom
                                      then Every ((case upd_intervalDays updates of
                                                     Some n \<Rightarrow> n
                                                   | None \<Rightarrow> (case intervalDays existing of
                                                                Some n \<Rightarrow> n | None \<Rightarrow> 1))
                                                  * 86400000)
                                      else Pattern cronExpr)
                          in Inr (Some r,
                                  w'\<lparr>schedulers := upsertJobScheduler (schedulers w') (schedulerId ruleId)
                                       \<lparr>repeat_opts = opts, scheduler_endDate = endDate r,
                                        scheduler_limit = maxOccurrences r\<rparr>\<rparr>)))))"

text \<open>
  The cron semantics of the specification, field by field: daily is
  \<open>0 <min> <hour> * * *\<close>, weekly \<open>0 <min> <hour> * * <dayOfWeek>\<close>, monthly
  \<open>0 <min> <hour> <day, or L if day > 28> * *\<close>, yearly and birthday
  \<open>0 <min> <hour> <day> <month> *\<close>.
\<close>

definition specCron :: "string \<Rightarrow> int \<Rightarrow> int \<Rightarrow> int \<Rightarrow> int \<Rightarrow> int \<Rightarrow> string" where
  "specCron kind minute hour weekday day mon =
     join_with CHR '' ''
       (if kind = ''daily'' then [''0'', show_int minute, show_int hour, ''*'', ''*'', ''*'']
        else if kind = ''weekly'' then
          [''0'', show_int minute, show_int hour, ''*'', ''*'', show_int weekday]
        else if kind = ''monthly'' then
          [''0'', show_int minute, show_int hour, if day > 28 then ''L'' else show_int day,
           ''*'', ''*'']
        else [''0'', show_int minute, show_int hour, show_int day, show_int mon, ''*''])"

text \<open>
  The expression of a rule kind for the scheduling parameters of a patch alone,
  every absent parameter at its built-in default: minute 0, day of week 1, day of
  month 1, month 1 and the configured default send hour.
\<close>

definition cronOfPatch :: "string \<Rightarrow> rule_updates \<Rightarrow> int \<Rightarrow> string" where
  "cronOfPatch kind updates defaultSendHour =
     specCron kind
       (case sendMinute updates of None \<Rightarrow> 0 | Some n \<Rightarrow> n)
       (case sendHour updates of None \<Rightarrow> defaultSendHour | Some h \<Rightarrow> h)
       (case dayOfWeek updates of None \<Rightarrow> 1 | Some d \<Rightarrow> d)
       (case dayOfMonth updates of None \<Rightarrow> 1 | Some d \<Rightarrow> d)
       (case month updates of None \<Rightarrow> 1 | Some n \<Rightarrow> n)"


section \<open>Credential vault (crypto/vault.ts)\<close>

text \<open>
  A \<open>Buffer\<close> is a sequence of bytes. What \<open>encrypt\<close> and \<open>decrypt\<close> call in
  \<open>Buffer\<close> and \<open>node:crypto\<close> is taken as given, one function for each call:

  \<^item> \<open>bufferFromBase64 s\<close> is \<open>Buffer.from(s, 'base64')\<close> (it never throws on a string),
    \<open>toBase64 b\<close> is \<open>b.toString('base64')\<close>;
  \<^item> \<open>bufferFromUtf8 s\<close> is the bytes \<open>cipher.update(s, 'utf8')\<close> reads, \<open>utf8ToString b\<close>
    is \<open>b.toString('utf8')\<close>;
  \<^item> \<open>scryptSync password salt keylen\<close>;
  \<^item> \<open>createCipheriv key iv n\<close> and \<open>createDecipheriv key iv n\<close> are the message of the
    error that \<open>createCipheriv('aes-256-gcm', key, iv, {authTagLength: n})\<close> and
    \<open>createDecipheriv\<close> throw, \<open>None\<close> when they return a cipher;
  \<^item> \<open>cipherUpdateFinal key iv data\<close> is \<open>update(data)\<close> followed by \<open>final()\<close> of that
    cipher, \<open>getAuthTag key iv n data\<close> the tag it then gives;
  \<^item> \<open>setAuthTag n tag\<close> is the message of the error that \<open>decipher.setAuthTag(tag)\<close>
    throws on a decipher made with \<open>authTagLength: n\<close>, \<open>None\<close> when it accepts the tag;
  \<^item> \<open>decipherUpdateFinal key iv tag data\<close> is \<open>update(data)\<close> followed by \<open>final()\<close>
    of the decipher: \<open>Inl\<close> the message of the error \<open>final()\<close> throws when the tag
    does not verify, \<open>Inr\<close> the plaintext bytes otherwise.
\<close>

type_synonym buffer = "nat list"

record crypto =
  bufferFromBase64 :: "string \<Rightarrow> buffer"
  toBase64 :: "buffer \<Rightarrow> string"
  bufferFromUtf8 :: "string \<Rightarrow> buffer"
  utf8ToString :: "buffer \<Rightarrow> string"
  scryptSync :: "string \<Rightarrow> buffer \<Rightarrow> nat \<Rightarrow> buffer"
  createCipheriv :: "buffer \<Rightarrow> buffer \<Rightarrow> nat \<Rightarrow> string option"
  createDecipheriv :: "buffer \<Rightarrow> buffer \<Rightarrow> nat \<Rightarrow> string option"
  cipherUpdateFinal :: "buffer \<Rightarrow> buffer \<Rightarrow> buffer \<Rightarrow> buffer"
  getAuthTag :: "buffer \<Rightarrow> buffer \<Rightarrow> nat \<Rightarrow> buffer \<Rightarrow> buffer"
  setAuthTag :: "nat \<Rightarrow> buffer \<Rightarrow> string option"
  decipherUpdateFinal :: "buffer \<Rightarrow> buffer \<Rightarrow> buffer \<Rightarrow> buffer \<Rightarrow> string + buffer"

datatype vault_error = TypeError | CryptoError string

definition IV_LENGTH :: nat where
  "IV_LENGTH = 12"

definition TAG_LENGTH :: nat where
  "TAG_LENGTH = 16"

definition SALT_LENGTH :: nat where
  "SALT_LENGTH = 16"

definition KEY_LENGTH :: nat where
  "KEY_LENGTH = 32"

definition deriveKey :: "crypto \<Rightarrow> string \<Rightarrow> buffer \<Rightarrow> buffer" where
  "deriveKey lib password salt = scryptSync lib password salt KEY_LENGTH"


text \<open>
  \<open>decrypt(encryptedStr, masterKey)\<close>. The destructuring takes the first four parts
  of the split; a missing part is \<open>undefined\<close>, on which \<open>Buffer.from\<close> throws a
  TypeError before the key is derived. Then the key is derived, the decipher is
  created, the tag is set, and only then is the data decrypted.
\<close>

definition decrypt :: "crypto \<Rightarrow> string \<Rightarrow> string \<Rightarrow> vault_error + string" where
  "decrypt lib encryptedStr masterKey =
     (case split_on CHR '':'' encryptedStr of
        saltB64 # ivB64 # tagB64 # dataB64 # _ \<Rightarrow>
          (let salt = bufferFromBase64 lib saltB64;
               iv = bufferFromBase64 lib ivB64;
               tag = bufferFromBase64 lib tagB64;
               encrypted = bufferFromBase64 lib dataB64;
               key = deriveKey lib masterKey salt
           in case createDecipheriv lib key iv TAG_LENGTH of
                Some e \<Rightarrow> Inl (CryptoError e)
              | None \<Rightarrow>
                  (case setAuthTag lib TAG_LENGTH tag of
                     Some e \<Rightarrow> Inl (CryptoError e)
                   | None \<Rightarrow>
                       (case decipherUpdateFinal lib key iv tag encrypted of
                          Inl e \<Rightarrow> Inl (CryptoError e)
                        | Inr plain \<Rightarrow> Inr (utf8ToString lib plain))))
      | _ \<Rightarrow> Inl TypeError)"

text \<open>
  The inputs the specification calls malformed: not exactly four parts, or a salt,
  nonce or tag that does not decode to 16, 12 and 16 bytes.
\<close>

definition malformed :: "crypto \<Rightarrow> string \<Rightarrow> bool" where
  "malformed lib s \<longleftrightarrow>
     (case split_on CHR '':'' s of
        [saltB64, ivB64, tagB64, dataB64] \<Rightarrow>
          length (bufferFromBase64 lib saltB64) \<noteq> 16
          \<or> length (bufferFromBase64 lib ivB64) \<noteq> 12
          \<or> length (bufferFromBase64 lib tagB64) \<noteq> 16
      | _ \<Rightarrow> True)"




section \<open>Example data\<close>

definition example_message :: scheduledMessage where
  "example_message =
     \<lparr>msg_id = ''m1'', contactId = Some ''c1'', groupId = None, recurringRuleId = None,
      content = ''Hi'', scheduledAt = 1700000000000, status = Pending,
      whatsappMessageId = None, sentAt = None, deliveredAt = None, failedAt = None,
      failureReason = None, attempts = 0, mediaUrl = None, mediaType = None,
      createdAt = 1700000000000, updatedAt = 1700000000000\<rparr>"


definition example_contact :: contact where
  "example_contact = \<lparr>contact_id = ''c1'', phone = ''+919876543210''\<rparr>"

definition example_world :: world where
  "example_world =
     \<lparr>messages = [example_message], contacts = [example_contact],
      jobs = [(''msg-m1'', 0)], outbox = [], broadcasts = []\<rparr>"

definition example_config :: RateLimitConfig where
  "example_config = \<lparr>daily_cap = 30, warn_threshold_pct = 80\<rparr>"

text \<open>A connected socket whose provider accepts every message.\<close>

definition example_socket :: socket where
  "example_socket jid p = Inr (Some ''WAMID1'')"

text \<open>
  The states of a run in which Cancel commits while \<open>processSendJob\<close> awaits
  \<open>sock.sendMessage\<close>: after the dispatcher has read the row, and after the cancel.
\<close>

definition race_after_begin :: world where
  "race_after_begin = example_world\<lparr>outbox := [(''919876543210@s.whatsapp.net'', Text ''Hi'')]\<rparr>"

definition race_after_cancel :: world where
  "race_after_cancel =
     race_after_begin\<lparr>messages := [example_message\<lparr>status := Cancelled, updatedAt := 1700000001000\<rparr>],
                       jobs := []\<rparr>"

text \<open>A world whose only intent has the given status and provider message id.\<close>

definition world_with :: "status \<Rightarrow> string option \<Rightarrow> world" where
  "world_with s wid =
     example_world\<lparr>messages := [example_message\<lparr>status := s, whatsappMessageId := wid\<rparr>]\<rparr>"

definition delivery_ack :: message_update where
  "delivery_ack = \<lparr>key_id = Some ''WAMID1'', update_status = Some 3\<rparr>"


text \<open>
  A world on a machine whose clock reads ten seconds past the epoch, with one intent
  sent five seconds before; and a world whose intent was sent and delivered a minute
  before the clock of the other examples.
\<close>

definition epoch_world :: world where
  "epoch_world = example_world\<lparr>messages := [example_message\<lparr>status := Sent, sentAt := Some 5000\<rparr>]\<rparr>"

definition delivered_world :: world where
  "delivered_world =
     example_world\<lparr>messages :=
       [example_message\<lparr>status := Delivered, whatsappMessageId := Some ''WAMID0'',
          sentAt := Some 1699999940000, deliveredAt := Some 1699999941000, attempts := 1\<rparr>]\<rparr>"

definition example_reconnect_config :: ReconnectConfig where
  "example_reconnect_config = \<lparr>max_retry_minutes = 30, base_delay_ms = 1000, max_delay_ms = 60000\<rparr>"

definition example_socket_object :: wasocket where
  "example_socket_object = \<lparr>user = Some (''919876543210:5@s.whatsapp.net'', Some ''Asha'')\<rparr>"

definition example_env :: conn_env where
  "example_env =
     \<lparr>new_Date = 1700000000000, Date_now = 1700000000000, random = 1/2,
      created = Some example_socket_object,
      reasonName = (\<lambda>c. if c = 440 then Some ''connectionReplaced'' else None),
      toDataURL = Some\<rparr>"

text \<open>
  Reachable states of the manager: after the first \<open>connect()\<close>; after that socket
  opened and was closed with code 440; after it opened and was closed with code 428.
\<close>

definition manager_started :: manager where
  "manager_started = fst (connect example_env (new_manager [(''creds'', ''x'')]))"

definition manager_opened :: manager where
  "manager_opened =
     handleConnectionUpdate example_reconnect_config example_env manager_started
       \<lparr>upd_connection = Open, upd_statusCode = None, upd_qr = None\<rparr>"

definition manager_replaced :: manager where
  "manager_replaced =
     handleConnectionUpdate example_reconnect_config example_env manager_opened
       \<lparr>upd_connection = Close, upd_statusCode = Some 440, upd_qr = None\<rparr>"

definition manager_reconnecting :: manager where
  "manager_reconnecting =
     handleConnectionUpdate example_reconnect_config example_env manager_opened
       \<lparr>upd_connection = Close, upd_statusCode = Some 428, upd_qr = None\<rparr>"

text \<open>The state after the reconnect timer of that last state has fired.\<close>

definition manager_reconnected :: manager where
  "manager_reconnected = reconnectTimerFired example_reconnect_config example_env manager_reconnecting"


text \<open>A weekly rule that fires on Fridays at 18:30, and a patch that sets the hour only.\<close>

definition example_rule :: recurringRule where
  "example_rule =
     \<lparr>rule_id = ''r1'', rule_contactId = ''c1'', rule_type = ''weekly'', rule_content = ''Hi'',
      cronExpression = ''0 30 18 * * 5'', intervalDays = None, endDate = None,
      maxOccurrences = None, occurrenceCount = 0, enabled = True, lastFiredAt = None,
      rule_mediaUrl = None, rule_mediaType = None, rule_createdAt = 1700000000000,
      rule_updatedAt = 1700000000000\<rparr>"

definition example_rule_world :: rule_world where
  "example_rule_world =
     \<lparr>rules = [example_rule],
      schedulers = [(''recurring-r1'',
                     \<lparr>repeat_opts = Pattern ''0 30 18 * * 5'', scheduler_endDate = None,
                      scheduler_limit = None\<rparr>)]\<rparr>"

definition hour_patch :: rule_updates where
  "hour_patch =
     \<lparr>sendHour = Some 10, sendMinute = None, dayOfWeek = None, dayOfMonth = None, month = None,
      upd_content = None, upd_intervalDays = None, upd_endDate = None, upd_maxOccurrences = None,
      upd_enabled = None, upd_mediaUrl = None, upd_mediaType = None\<rparr>"


text \<open>
  The same rule as a monthly and as a birthday rule, a patch that sets minute 45 and
  day 31, and a patch that sets day 15 and month 3.
\<close>

definition monthly_rule_world :: rule_world where
  "monthly_rule_world = example_rule_world\<lparr>rules := [example_rule\<lparr>rule_type := ''monthly''\<rparr>]\<rparr>"

definition birthday_rule_world :: rule_world where
  "birthday_rule_world = example_rule_world\<lparr>rules := [example_rule\<lparr>rule_type := ''birthday''\<rparr>]\<rparr>"

definition month_end_patch :: rule_updates where
  "month_end_patch = hour_patch\<lparr>sendHour := None, sendMinute := Some 45, dayOfMonth := Some 31\<rparr>"

definition birthday_patch :: rule_updates where
  "birthday_patch = hour_patch\<lparr>sendHour := None, dayOfMonth := Some 15, month := Some 3\<rparr>"

text \<open>A store with a second rule, a daily one at 7:00, before the weekly rule.\<close>

definition two_rule_world :: rule_world where
  "two_rule_world =
     example_rule_world
       \<lparr>rules := [example_rule\<lparr>rule_id := ''r0'', rule_type := ''daily'',
                                cronExpression := ''0 0 7 * * *''\<rparr>,
                   example_rule]\<rparr>"


subsection \<open>The library at the examples\<close>

text \<open>
  Base64 as Node encodes and decodes it. Decoding skips every character outside the
  alphabet (in which \<open>-\<close> and \<open>_\<close> stand for \<open>+\<close> and \<open>/\<close>), stops at the first
  \<open>=\<close>, and drops a last group of fewer than two characters.
\<close>

definition base64_alphabet :: string where
  "base64_alphabet = ''ABCDEFGHIJKLMNOPQRSTUVWXYZabcdefghijklmnopqrstuvwxyz0123456789+/''"

fun base64_encode :: "buffer \<Rightarrow> string" where
  "base64_encode [] = []"
| "base64_encode [a] =
     [base64_alphabet ! (a div 4), base64_alphabet ! ((a mod 4) * 16), CHR ''='', CHR ''='']"
| "base64_encode [a, b] =
     [base64_alphabet ! (a div 4), base64_alphabet ! ((a mod 4) * 16 + b div 16),
      base64_alphabet ! ((b mod 16) * 4), CHR ''='']"
| "base64_encode (a # b # c # rest) =
     base64_alphabet ! (a div 4) # base64_alphabet ! ((a mod 4) * 16 + b div 16)
       # base64_alphabet ! ((b mod 16) * 4 + c div 64) # base64_alphabet ! (c mod 64)
       # base64_encode rest"

definition unbase64 :: "char \<Rightarrow> nat option" where
  "unbase64 c =
     (let n = (of_char c :: nat)
      in if 65 \<le> n \<and> n \<le> 90 then Some (n - 65)
         else if 97 \<le> n \<and> n \<le> 122 then Some (n - 71)
         else if 48 \<le> n \<and> n \<le> 57 then Some (n + 4)
         else if n = 43 \<or> n = 45 then Some 62
         else if n = 47 \<or> n = 95 then Some 63
         else None)"

fun base64_groups :: "nat list \<Rightarrow> buffer" where
  "base64_groups (a # b # c # d # rest) =
     (a * 4 + b div 16) # ((b mod 16) * 16 + c div 4) # ((c mod 4) * 64 + d) # base64_groups rest"
| "base64_groups [a, b, c] = [a * 4 + b div 16, (b mod 16) * 16 + c div 4]"
| "base64_groups [a, b] = [a * 4 + b div 16]"
| "base64_groups _ = []"

definition base64_decode :: "string \<Rightarrow> buffer" where
  "base64_decode s = base64_groups (List.map_filter unbase64 (takeWhile (\<lambda>c. c \<noteq> CHR ''='') s))"

text \<open>
  The salts and nonces of the examples: two draws of 16 and 12 bytes, and a salt of
  8 bytes and a nonce of 16 bytes, which \<open>encrypt\<close> never draws.
\<close>

definition example_salt :: buffer where
  "example_salt = [16, 17, 18, 19, 20, 21, 22, 23, 24, 25, 26, 27, 28, 29, 30, 31]"

definition example_iv :: buffer where
  "example_iv = [1, 2, 3, 4, 5, 6, 7, 8, 9, 10, 11, 12]"

definition second_salt :: buffer where
  "second_salt = [32, 33, 34, 35, 36, 37, 38, 39, 40, 41, 42, 43, 44, 45, 46, 47]"

definition second_iv :: buffer where
  "second_iv = [101, 102, 103, 104, 105, 106, 107, 108, 109, 110, 111, 112]"

definition short_salt :: buffer where
  "short_salt = [1, 2, 3, 4, 5, 6, 7, 8]"

definition long_iv :: buffer where
  "long_iv = [1, 2, 3, 4, 5, 6, 7, 8, 9, 10, 11, 12, 13, 14, 15, 16]"

text \<open>
  The values of \<open>scryptSync(password, salt, 32)\<close>, with the defaults of Node (N = 16384,
  r = 8, p = 1), at the passwords and salts of the examples.
\<close>

definition example_key :: buffer where
  "example_key =
     [240, 161, 92, 49, 182, 69, 234, 165, 145, 5, 8, 245, 244, 222, 15, 146,
      252, 124, 223, 20, 77, 129, 79, 163, 189, 151, 151, 103, 94, 212, 241, 93]"

definition other_key :: buffer where
  "other_key =
     [200, 101, 59, 190, 14, 45, 16, 127, 240, 126, 82, 33, 153, 26, 156, 226,
      14, 155, 84, 88, 98, 51, 161, 156, 243, 20, 217, 6, 99, 197, 233, 20]"

definition second_key :: buffer where
  "second_key =
     [13, 86, 116, 95, 109, 116, 73, 121, 124, 21, 243, 170, 12, 60, 193, 237,
      1, 238, 250, 255, 104, 188, 11, 86, 175, 167, 42, 171, 11, 109, 0, 155]"

definition short_salt_key :: buffer where
  "short_salt_key =
     [62, 224, 54, 229, 9, 89, 58, 126, 23, 179, 196, 122, 212, 155, 211, 54,
      99, 67, 161, 115, 240, 188, 3, 132, 137, 254, 172, 210, 136, 242, 229, 168]"

definition scrypt_values :: "((string \<times> buffer) \<times> buffer) list" where
  "scrypt_values =
     [((''master-key-1'', example_salt), example_key),
      ((''master-key-2'', example_salt), other_key),
      ((''master-key-1'', second_salt), second_key),
      ((''master-key-1'', short_salt), short_salt_key)]"

text \<open>
  The values of AES-256-GCM at the keys, nonces and data of the examples, with no
  associated data: the counter-mode output for the data (the ciphertext of a
  plaintext, and the plaintext of a ciphertext), and the tag of 16 bytes of a
  ciphertext. The plaintext is the six bytes of \<open>secret\<close>.
\<close>

definition gcm_ctr_values :: "((buffer \<times> buffer \<times> buffer) \<times> buffer) list" where
  "gcm_ctr_values =
     [((example_key, example_iv, [115, 101, 99, 114, 101, 116]), [30, 136, 102, 91, 19, 96]),
      ((example_key, example_iv, [30, 136, 102, 91, 19, 96]), [115, 101, 99, 114, 101, 116]),
      ((second_key, second_iv, [115, 101, 99, 114, 101, 116]), [174, 53, 51, 61, 189, 88]),
      ((short_salt_key, example_iv, [26, 89, 243, 235, 117, 4]), [115, 101, 99, 114, 101, 116]),
      ((example_key, long_iv, [102, 211, 155, 89, 200, 167]), [115, 101, 99, 114, 101, 116])]"

definition gcm_tag_values :: "((buffer \<times> buffer \<times> buffer) \<times> buffer) list" where
  "gcm_tag_values =
     [((example_key, example_iv, [30, 136, 102, 91, 19, 96]),
       [57, 219, 49, 245, 182, 108, 154, 47, 15, 97, 171, 22, 200, 143, 252, 224]),
      ((other_key, example_iv, [30, 136, 102, 91, 19, 96]),
       [122, 93, 119, 249, 88, 5, 0, 174, 45, 141, 84, 219, 190, 47, 45, 146]),
      ((second_key, second_iv, [174, 53, 51, 61, 189, 88]),
       [74, 13, 158, 120, 203, 255, 12, 16, 90, 96, 162, 65, 244, 7, 127, 29]),
      ((short_salt_key, example_iv, [26, 89, 243, 235, 117, 4]),
       [91, 65, 100, 68, 183, 68, 7, 107, 252, 145, 209, 148, 136, 157, 4, 82]),
      ((example_key, long_iv, [102, 211, 155, 89, 200, 167]),
       [59, 145, 184, 63, 108, 21, 254, 1, 64, 152, 34, 107, 64, 167, 80, 125])]"

definition recorded :: "('a \<times> buffer) list \<Rightarrow> 'a \<Rightarrow> buffer" where
  "recorded values x = (case map_of values x of Some b \<Rightarrow> b | None \<Rightarrow> [])"

text \<open>
  The library at the examples. Base64 is the one above; UTF-8 is taken on ASCII text,
  where it maps a character to its code. \<open>scryptSync\<close> and the cipher have their
  recorded values, and the empty buffer elsewhere, where no statement below reads
  them. \<open>createCipheriv\<close> and \<open>createDecipheriv\<close> refuse a key that is not of 32 bytes
  and an empty nonce (the upper bound that some versions of OpenSSL put on the length
  of the nonce is left out); \<open>setAuthTag\<close> refuses a tag whose length is not the
  \<open>authTagLength\<close> of the decipher; \<open>final()\<close> of the decipher throws when the tag is
  not the tag of the data.
\<close>

definition char_of_code :: "nat \<Rightarrow> char" where
  "char_of_code n =
     Char (odd n) (odd (n div 2)) (odd (n div 4)) (odd (n div 8))
          (odd (n div 16)) (odd (n div 32)) (odd (n div 64)) (odd (n div 128))"

definition cipheriv_error :: "buffer \<Rightarrow> buffer \<Rightarrow> nat \<Rightarrow> string option" where
  "cipheriv_error key iv n =
     (if length key \<noteq> 32 then Some ''Invalid key length''
      else if iv = [] then Some ''Invalid initialization vector''
      else None)"

definition node_crypto :: crypto where
  "node_crypto =
     \<lparr>bufferFromBase64 = base64_decode,
      toBase64 = base64_encode,
      bufferFromUtf8 = map of_char,
      utf8ToString = map char_of_code,
      scryptSync = (\<lambda>password salt keylen.
         if keylen = 32 then recorded scrypt_values (password, salt) else []),
      createCipheriv = cipheriv_error,
      createDecipheriv = cipheriv_error,
      cipherUpdateFinal = (\<lambda>key iv data. recorded gcm_ctr_values (key, iv, data)),
      getAuthTag = (\<lambda>key iv n data.
         take n (recorded gcm_tag_values (key, iv, recorded gcm_ctr_values (key, iv, data)))),
      setAuthTag = (\<lambda>n tag.
         if length tag = n then None
         else Some (''Invalid authentication tag length: '' @ show_nat (length tag))),
      decipherUpdateFinal = (\<lambda>key iv tag data.
         if tag = recorded gcm_tag_values (key, iv, data)
         then Inr (recorded gcm_ctr_values (key, iv, data))
         else Inl ''Unsupported state or unable to authenticate data'')\<rparr>"


section \<open>Properties\<close>

subsection \<open>Backoff bounds\<close>

lemma jitterFactor_bounds:
  fixes rnd :: real
  assumes "0 \<le> rnd" and "rnd < 1"
  shows "0.8 \<le> 1 + (rnd * 2 - 1) * 0.2" and "1 + (rnd * 2 - 1) * 0.2 \<le> 1.2"
proof -
  have eq: "1 + (rnd * 2 - 1) * 0.2 = 0.8 + 0.4 * rnd"
    by (simp add: algebra_simps)
  show "0.8 \<le> 1 + (rnd * 2 - 1) * 0.2" unfolding eq using assms by simp
  show "1 + (rnd * 2 - 1) * 0.2 \<le> 1.2" unfolding eq using assms by simp
qed

text \<open>
  C9. For every attempt number and every jitter draw in \<open>[0, 1)\<close>, the delay is the
  capped exponential delay \<open>min (base * 2 ^ n) max\<close> scaled by a factor of the closed
  interval \<open>[0.8, 1.2]\<close>; for a capped delay that is not negative this is
  \<open>0.8 * e \<le> delay \<le> 1.2 * e\<close>.
\<close>

theorem calculateBackoff_bounds:
  assumes "0 \<le> rnd" and "rnd < 1"
  shows "calculateBackoff n config rnd
           \<in> (\<lambda>c. c * min (baseDelayMs config * 2 ^ n) (maxDelayMs config)) ` {0.8 .. 1.2}
         \<and> (0 \<le> min (baseDelayMs config * 2 ^ n) (maxDelayMs config) \<longrightarrow>
              0.8 * min (baseDelayMs config * 2 ^ n) (maxDelayMs config)
                \<le> calculateBackoff n config rnd
              \<and> calculateBackoff n config rnd
                \<le> 1.2 * min (baseDelayMs config * 2 ^ n) (maxDelayMs config))"
proof -
  define e where "e = min (baseDelayMs config * 2 ^ n) (maxDelayMs config)"
  define j where "j = 1 + (rnd * 2 - 1) * 0.2"
  have d: "calculateBackoff n config rnd = j * e"
    by (simp add: calculateBackoff_def e_def j_def Let_def mult.commute)
  have j: "0.8 \<le> j" "j \<le> 1.2"
    using jitterFactor_bounds [OF assms] by (simp_all add: j_def)
  have mem: "j * e \<in> (\<lambda>c. c * e) ` {0.8 .. 1.2}"
    using j by (intro image_eqI [where x = j]) simp_all
  have order: "0.8 * e \<le> j * e \<and> j * e \<le> 1.2 * e" if "0 \<le> e"
    using mult_right_mono [OF j(1) that] mult_right_mono [OF j(2) that] by blast
  show ?thesis
    unfolding d e_def [symmetric] using mem order by blast
qed

theorem calculateBackoff_bounds_witness:
  "calculateBackoff 3 \<lparr>baseDelayMs = 1000, maxDelayMs = 60000\<rparr> (1/2) = 8000
   \<and> 0.8 * min (1000 * 2 ^ 3) 60000
        \<le> calculateBackoff 3 \<lparr>baseDelayMs = 1000, maxDelayMs = 60000\<rparr> (1/2)
   \<and> calculateBackoff 3 \<lparr>baseDelayMs = 1000, maxDelayMs = 60000\<rparr> (1/2)
        \<le> 1.2 * min (1000 * 2 ^ 3) (60000 :: real)"
proof -
  have h0: "(0::real) \<le> 1/2" and h1: "(1/2 :: real) < 1" by simp_all
  have v: "calculateBackoff 3 \<lparr>baseDelayMs = 1000, maxDelayMs = 60000\<rparr> (1/2) = 8000"
    by (simp add: calculateBackoff_def Let_def)
  show ?thesis
    using calculateBackoff_bounds [OF h0 h1, of 3 "\<lparr>baseDelayMs = 1000, maxDelayMs = 60000\<rparr>"] v
    by simp
qed

subsection \<open>Rate limiter: what \<open>sentToday\<close> counts\<close>

lemma js_rem_nonneg: "0 \<le> a \<Longrightarrow> 0 < b \<Longrightarrow> js_rem a b = a mod b"
  by (simp add: js_rem_def sgn_if)

text \<open>
  For a clock reading that is not before the epoch (shifted by the IST offset),
  \<open>getTodayIST\<close> is the IST midnight of the day that contains \<open>now\<close>.
\<close>

lemma getTodayIST_window:
  assumes "0 \<le> now + 19800000"
  shows "getTodayIST now \<le> now" and "now < getTodayIST now + 24 * 60 * 60 * 1000"
    and "(getTodayIST now + 19800000) mod (24 * 60 * 60 * 1000) = 0"
proof -
  have r: "js_rem (now + 19800000) 86400000 = (now + 19800000) mod 86400000"
    using assms by (simp add: js_rem_nonneg)
  have eq: "getTodayIST now = now - (now + 19800000) mod 86400000"
    using r by (simp add: getTodayIST_def Let_def)
  have b: "0 \<le> (now + 19800000) mod 86400000" "(now + 19800000) mod 86400000 < 86400000"
    by simp_all
  show "getTodayIST now \<le> now" using eq b by simp
  show "now < getTodayIST now + 24 * 60 * 60 * 1000" using eq b by simp
  have "getTodayIST now + 19800000 = (now + 19800000) - (now + 19800000) mod 86400000"
    using eq by simp
  also have "\<dots> = 86400000 * ((now + 19800000) div 86400000)"
    by (simp add: minus_mod_eq_mult_div)
  finally show "(getTodayIST now + 19800000) mod (24 * 60 * 60 * 1000) = 0" by simp
qed

lemma getTodayIST_example: "getTodayIST 1700000000000 = 1699986600000"
  by (simp add: getTodayIST_def js_rem_def Let_def)

text \<open>
  The stored seconds of an instant that is not after the clock lie below the IST
  midnight in milliseconds, once the clock is past the second day of 1970.
\<close>

lemma stored_seconds_below_midnight:
  assumes "86500000 \<le> now" and "t \<le> now"
  shows "mapToDriverValue t < getTodayIST now"
proof -
  have "t div 1000 \<le> now div 1000"
    using assms(2) by (rule zdiv_mono1) simp
  moreover have "now div 1000 \<le> now - 86400000"
    using assms(1) by linarith
  moreover have "now - 86400000 < getTodayIST now"
    using getTodayIST_window(2) [of now] assms(1) by simp
  ultimately show ?thesis
    by (simp add: mapToDriverValue_def)
qed

text \<open>
  C1. \<open>getSentTodayCount\<close> does not count the intents sent in the current IST day.
  For every store whose rows were stamped no later than the clock reads, and every
  clock reading past the second day of 1970, no row satisfies the comparison of the
  stored seconds with the midnight in milliseconds: \<open>sentToday\<close> is 0 however many
  intents were sent today, and \<open>canSend\<close>, which does return
  \<open>allowed = (sentToday < dailyCap)\<close>, allows the send whenever the cap is positive.
\<close>

theorem getSentTodayCount_counts_nothing:
  assumes "86500000 \<le> now"
    and "\<forall>m \<in> set msgs. \<forall>t. sentAt m = Some t \<longrightarrow> t \<le> now"
  shows "getSentTodayCount msgs now = 0
       \<and> sentToday (canSend config msgs now) = 0
       \<and> allowed (canSend config msgs now) = (0 < daily_cap config)"
proof -
  have "\<not> sentTodayRow (getTodayIST now) m" if "m \<in> set msgs" for m
  proof (cases "sentAt m")
    case None
    then show ?thesis by (simp add: sentTodayRow_def)
  next
    case (Some t)
    then have "t \<le> now" using assms(2) that by blast
    then have "mapToDriverValue t < getTodayIST now"
      using assms(1) by (intro stored_seconds_below_midnight)
    then show ?thesis using Some by (simp add: sentTodayRow_def)
  qed
  then have "filter (sentTodayRow (getTodayIST now)) msgs = []"
    by (simp add: filter_empty_conv)
  then have z: "getSentTodayCount msgs now = 0"
    by (simp add: getSentTodayCount_def Let_def)
  show ?thesis
    using z by (simp add: canSend_def Let_def)
qed

text \<open>
  The failing input: the cap is 1 and two intents were sent within the last hour
  of the current IST day. The specification counts 2; the code counts 0 and allows
  a third send.
\<close>

theorem getSentTodayCount_counts_nothing_witness:
  "countInCurrentISTDay
     [example_message\<lparr>status := Sent, sentAt := Some 1699999940000\<rparr>,
      example_message\<lparr>status := Delivered, sentAt := Some 1699996400000\<rparr>] 1700000000000 = 2
   \<and> getSentTodayCount
     [example_message\<lparr>status := Sent, sentAt := Some 1699999940000\<rparr>,
      example_message\<lparr>status := Delivered, sentAt := Some 1699996400000\<rparr>] 1700000000000 = 0
   \<and> allowed (canSend \<lparr>daily_cap = 1, warn_threshold_pct = 80\<rparr>
     [example_message\<lparr>status := Sent, sentAt := Some 1699999940000\<rparr>,
      example_message\<lparr>status := Delivered, sentAt := Some 1699996400000\<rparr>] 1700000000000)"
proof -
  let ?msgs = "[example_message\<lparr>status := Sent, sentAt := Some 1699999940000\<rparr>,
      example_message\<lparr>status := Delivered, sentAt := Some 1699996400000\<rparr>]"
  have clock: "(86500000::int) \<le> 1700000000000" by simp
  have stamped: "\<forall>m \<in> set ?msgs. \<forall>t. sentAt m = Some t \<longrightarrow> t \<le> 1700000000000"
    by (simp add: example_message_def)
  have spec: "countInCurrentISTDay ?msgs 1700000000000 = 2"
    by (simp add: countInCurrentISTDay_def inCurrentISTDay_def getTodayIST_example
          example_message_def)
  have code: "getSentTodayCount ?msgs 1700000000000 = 0
       \<and> allowed (canSend \<lparr>daily_cap = 1, warn_threshold_pct = 80\<rparr> ?msgs 1700000000000)
           = (0 < daily_cap \<lparr>daily_cap = 1, warn_threshold_pct = 80\<rparr>)"
    using getSentTodayCount_counts_nothing
            [OF clock stamped, of "\<lparr>daily_cap = 1, warn_threshold_pct = 80\<rparr>"]
    by blast
  show ?thesis
    using spec code by simp
qed


subsection \<open>Table operations\<close>

lemma update_where_none: "\<forall>r \<in> set rows. \<not> p r \<Longrightarrow> update_where p f rows = rows"
  by (simp add: update_where_def map_idI)

lemma update_where_mem:
  "r \<in> set rows \<Longrightarrow> p r \<Longrightarrow> f r \<in> set (update_where p f rows)"
  by (auto simp: update_where_def image_iff intro!: bexI [where x = r])

lemma update_where_others:
  "m \<in> set (update_where p f rows) \<Longrightarrow> m \<in> set rows \<or> (\<exists>r \<in> set rows. p r \<and> m = f r)"
  by (auto simp: update_where_def split: if_splits)

lemma update_where_cases:
  "m \<in> set (update_where p f rows) \<Longrightarrow>
     (m \<in> set rows \<and> \<not> p m) \<or> (\<exists>r \<in> set rows. p r \<and> m = f r)"
  by (induction rows) (auto simp: update_where_def split: if_splits)

lemma map_key_update_where:
  "(\<And>r. k (f r) = k r) \<Longrightarrow> map k (update_where p f rows) = map k rows"
  by (induction rows) (simp_all add: update_where_def)

text \<open>With a primary key, a lookup by key finds the one row that has it.\<close>

lemma find_unique:
  assumes "distinct (map k rows)" "r \<in> set rows" "k r = i"
  shows "find (\<lambda>m. k m = i) rows = Some r"
  using assms
proof (induction rows)
  case Nil
  then show ?case by simp
next
  case (Cons a rows)
  then show ?case by (auto simp: image_iff)
qed

lemma find_pred_unique:
  assumes "distinct (map k rows)" "r \<in> set rows" "k r = i" "q r"
  shows "find (\<lambda>m. k m = i \<and> q m) rows = Some r"
  using assms
proof (induction rows)
  case Nil
  then show ?case by simp
next
  case (Cons a rows)
  then show ?case by (auto simp: image_iff)
qed


subsection \<open>Cancel against dispatch\<close>

lemma cancelJob_removes: "jobIdOf i \<notin> fst ` set (cancelJob q i)"
  by (auto simp: cancelJob_def)

lemma processSendJob_begin_cancelled:
  assumes "find (\<lambda>m. msg_id m = i) (messages w) = Some m" "status m = Cancelled"
  shows "processSendJob_begin dec sk cfg w i t = Completed w"
  using assms by (simp add: processSendJob_begin_def)

lemma processSendJob_cancelled:
  assumes "find (\<lambda>m. msg_id m = i) (messages w) = Some m" "status m = Cancelled"
  shows "processSendJob dec sk cfg w i t t' = Completed w"
  using processSendJob_begin_cancelled [OF assms] by (simp add: processSendJob_def)

lemma cancelMessage_not_pending:
  assumes "\<forall>m \<in> set (messages w). msg_id m = i \<longrightarrow> status m \<noteq> Pending"
  shows "cancelMessage w i now = (None, w)"
proof -
  let ?p = "\<lambda>m. msg_id m = i \<and> status m = Pending"
  have n: "\<forall>m \<in> set (messages w). \<not> ?p m"
    using assms by blast
  have "find ?p (messages w) = None"
    using n by (simp add: find_None_iff)
  moreover have "update_where ?p (\<lambda>m. m\<lparr>status := Cancelled, updatedAt := now\<rparr>) (messages w)
                   = messages w"
    using n by (rule update_where_none)
  ultimately show ?thesis
    by (simp add: cancelMessage_def returning_get_def Let_def)
qed

lemma cancelMessage_pending:
  fixes w :: world and i :: string and now :: instant and m0 :: scheduledMessage
  assumes d: "distinct (map msg_id (messages w))"
    and m0: "m0 \<in> set (messages w)" "msg_id m0 = i" "status m0 = Pending"
  defines "c \<equiv> m0\<lparr>status := Cancelled, updatedAt := now\<rparr>"
  defines "w' \<equiv> snd (cancelMessage w i now)"
  shows "fst (cancelMessage w i now) = Some c"
    and "find (\<lambda>m. msg_id m = i) (messages w') = Some c"
    and "jobIdOf i \<notin> fst ` set (jobs w')"
    and "\<forall>m \<in> set (messages w'). msg_id m \<noteq> i \<longrightarrow> m \<in> set (messages w)"
    and "processSendJob dec sk cfg w' i t t' = Completed w'"
proof -
  let ?p = "\<lambda>m. msg_id m = i \<and> status m = Pending"
  let ?f = "\<lambda>m. m\<lparr>status := Cancelled, updatedAt := now\<rparr>"
  have fnd: "find ?p (messages w) = Some m0"
    using find_pred_unique [OF d m0(1) m0(2), of "\<lambda>m. status m = Pending"] m0(3) by simp
  have cm: "cancelMessage w i now =
              (Some c, w\<lparr>messages := update_where ?p ?f (messages w), jobs := cancelJob (jobs w) i\<rparr>)"
    using fnd by (simp add: cancelMessage_def returning_get_def Let_def c_def)
  show "fst (cancelMessage w i now) = Some c"
    by (simp add: cm)
  have msgs': "messages w' = update_where ?p ?f (messages w)"
    and jobs': "jobs w' = cancelJob (jobs w) i"
    by (simp_all add: w'_def cm)
  have d': "distinct (map msg_id (messages w'))"
    using d by (simp add: msgs' map_key_update_where)
  have cin: "c \<in> set (messages w')"
    unfolding msgs' c_def using update_where_mem [of m0 "messages w" ?p ?f] m0 by simp
  show f': "find (\<lambda>m. msg_id m = i) (messages w') = Some c"
    using find_unique [OF d' cin] m0(2) by (simp add: c_def)
  show "jobIdOf i \<notin> fst ` set (jobs w')"
    unfolding jobs' by (rule cancelJob_removes)
  show "\<forall>m \<in> set (messages w'). msg_id m \<noteq> i \<longrightarrow> m \<in> set (messages w)"
    unfolding msgs' using update_where_others [of _ ?p ?f "messages w"] by fastforce
  show "processSendJob dec sk cfg w' i t t' = Completed w'"
    using processSendJob_cancelled [OF f'] by (simp add: c_def)
qed

text \<open>
  C2, as the code has it. \<open>cancelMessage\<close> is one conditional update: when no row
  with the id is pending it returns null and leaves tables and queue as they were;
  when the row is pending it becomes cancelled, no other row changes and the job
  \<open>msg-<id>\<close> is gone from the queue. A \<open>processSendJob\<close> that starts after the
  cancel has committed reads the cancelled row and returns at once: the world it
  leaves is the world it found, so no \<open>sendMessage\<close> call was made and the status is
  still cancelled. (The ids are a primary key.)
\<close>

theorem cancel_before_dispatch_read_wins:
  assumes "distinct (map msg_id (messages w))"
  shows "((\<forall>m \<in> set (messages w). msg_id m = i \<longrightarrow> status m \<noteq> Pending)
            \<longrightarrow> cancelMessage w i now = (None, w))
       \<and> (\<forall>m0 \<in> set (messages w). msg_id m0 = i \<and> status m0 = Pending \<longrightarrow>
            fst (cancelMessage w i now) = Some (m0\<lparr>status := Cancelled, updatedAt := now\<rparr>)
          \<and> find (\<lambda>m. msg_id m = i) (messages (snd (cancelMessage w i now)))
               = Some (m0\<lparr>status := Cancelled, updatedAt := now\<rparr>)
          \<and> (\<forall>m \<in> set (messages (snd (cancelMessage w i now))). msg_id m \<noteq> i \<longrightarrow> m \<in> set (messages w))
          \<and> jobIdOf i \<notin> fst ` set (jobs (snd (cancelMessage w i now)))
          \<and> processSendJob dec sk cfg (snd (cancelMessage w i now)) i t t'
               = Completed (snd (cancelMessage w i now)))"
proof -
  have A: "cancelMessage w i now = (None, w)"
    if "\<forall>m \<in> set (messages w). msg_id m = i \<longrightarrow> status m \<noteq> Pending"
    using that by (rule cancelMessage_not_pending)
  have B: "fst (cancelMessage w i now) = Some (m0\<lparr>status := Cancelled, updatedAt := now\<rparr>)
          \<and> find (\<lambda>m. msg_id m = i) (messages (snd (cancelMessage w i now)))
               = Some (m0\<lparr>status := Cancelled, updatedAt := now\<rparr>)
          \<and> (\<forall>m \<in> set (messages (snd (cancelMessage w i now))). msg_id m \<noteq> i \<longrightarrow> m \<in> set (messages w))
          \<and> jobIdOf i \<notin> fst ` set (jobs (snd (cancelMessage w i now)))
          \<and> processSendJob dec sk cfg (snd (cancelMessage w i now)) i t t'
               = Completed (snd (cancelMessage w i now))"
    if "m0 \<in> set (messages w)" "msg_id m0 = i" "status m0 = Pending" for m0
    using cancelMessage_pending [OF assms that] by blast
  show ?thesis using A B by blast
qed

theorem cancel_before_dispatch_read_wins_witness:
  "cancelMessage (world_with Sent (Some ''WAMID1'')) ''m1'' 1700000001000
     = (None, world_with Sent (Some ''WAMID1''))
   \<and> fst (cancelMessage example_world ''m1'' 1700000001000)
     = Some (example_message\<lparr>status := Cancelled, updatedAt := 1700000001000\<rparr>)
   \<and> jobs (snd (cancelMessage example_world ''m1'' 1700000001000)) = []
   \<and> processSendJob Some (Some example_socket) example_config
        (snd (cancelMessage example_world ''m1'' 1700000001000)) ''m1'' 1700000002000 1700000003000
     = Completed (snd (cancelMessage example_world ''m1'' 1700000001000))
   \<and> outbox (snd (cancelMessage example_world ''m1'' 1700000001000)) = []"
proof -
  have d1: "distinct (map msg_id (messages (world_with Sent (Some ''WAMID1''))))"
    and d2: "distinct (map msg_id (messages example_world))"
    by (simp_all add: world_with_def example_world_def)
  have np: "\<forall>m \<in> set (messages (world_with Sent (Some ''WAMID1''))). msg_id m = ''m1'' \<longrightarrow> status m \<noteq> Pending"
    by (simp add: world_with_def example_world_def)
  have p: "example_message \<in> set (messages example_world)"
      "msg_id example_message = ''m1'' \<and> status example_message = Pending"
    by (simp_all add: example_world_def example_message_def)
  have a: "cancelMessage (world_with Sent (Some ''WAMID1'')) ''m1'' 1700000001000
             = (None, world_with Sent (Some ''WAMID1''))"
    using cancel_before_dispatch_read_wins [OF d1, of "''m1''" 1700000001000] np by blast
  have b: "fst (cancelMessage example_world ''m1'' 1700000001000)
             = Some (example_message\<lparr>status := Cancelled, updatedAt := 1700000001000\<rparr>)
         \<and> processSendJob Some (Some example_socket) example_config
              (snd (cancelMessage example_world ''m1'' 1700000001000)) ''m1'' 1700000002000 1700000003000
             = Completed (snd (cancelMessage example_world ''m1'' 1700000001000))"
    using cancel_before_dispatch_read_wins
            [OF d2, of "''m1''" 1700000001000 Some "Some example_socket" example_config
               1700000002000 1700000003000] p
    by blast
  have c: "jobs (snd (cancelMessage example_world ''m1'' 1700000001000)) = []"
      "outbox (snd (cancelMessage example_world ''m1'' 1700000001000)) = []"
    by (simp_all add: cancelMessage_def example_world_def example_message_def returning_get_def
          update_where_def cancelJob_def jobIdOf_def Let_def)
  show ?thesis using a b c by simp
qed

text \<open>
  The claim as stated fails when the cancel commits between the dispatcher's read and
  its status update. The dispatcher reads the pending row and calls
  \<open>sock.sendMessage\<close>; while it awaits, \<open>cancelMessage\<close> succeeds and returns the
  cancelled row; the send settles and the dispatcher's update, which tests the id
  only, overwrites the status with sent. One provider call was made.
\<close>

theorem cancel_during_send_is_overwritten:
  "processSendJob_begin Some (Some example_socket) example_config example_world ''m1'' 1700000000000
     = Awaiting race_after_begin example_message ''919876543210@s.whatsapp.net'' (Text ''Hi'')
   \<and> cancelMessage race_after_begin ''m1'' 1700000001000
     = (Some (example_message\<lparr>status := Cancelled, updatedAt := 1700000001000\<rparr>), race_after_cancel)
   \<and> processSendJob_finish example_config race_after_cancel example_message
       (example_socket ''919876543210@s.whatsapp.net'' (Text ''Hi'')) 1700000002000
     = Completed (race_after_cancel\<lparr>messages :=
          [example_message\<lparr>status := Sent, whatsappMessageId := Some ''WAMID1'',
             sentAt := Some 1700000002000, attempts := 1, updatedAt := 1700000002000\<rparr>],
          broadcasts := [MessageSent ''m1'' 1700000002000]\<rparr>)
   \<and> outbox race_after_cancel = [(''919876543210@s.whatsapp.net'', Text ''Hi'')]"
proof -
  have 1: "processSendJob_begin Some (Some example_socket) example_config example_world ''m1'' 1700000000000
     = Awaiting race_after_begin example_message ''919876543210@s.whatsapp.net'' (Text ''Hi'')"
    by (simp add: processSendJob_begin_def example_world_def example_message_def example_config_def
       canSend_def getSentTodayCount_def sentTodayRow_def resolveJid_def truthy_def example_contact_def
       buildMessagePayload_def race_after_begin_def Let_def)
  have 2: "cancelMessage race_after_begin ''m1'' 1700000001000
     = (Some (example_message\<lparr>status := Cancelled, updatedAt := 1700000001000\<rparr>), race_after_cancel)"
    by (simp add: cancelMessage_def race_after_begin_def race_after_cancel_def example_world_def
       example_message_def returning_get_def update_where_def cancelJob_def jobIdOf_def Let_def)
  have 3: "processSendJob_finish example_config race_after_cancel example_message
       (example_socket ''919876543210@s.whatsapp.net'' (Text ''Hi'')) 1700000002000
     = Completed (race_after_cancel\<lparr>messages :=
          [example_message\<lparr>status := Sent, whatsappMessageId := Some ''WAMID1'',
             sentAt := Some 1700000002000, attempts := 1, updatedAt := 1700000002000\<rparr>],
          broadcasts := [MessageSent ''m1'' 1700000002000]\<rparr>)"
    by (simp add: processSendJob_finish_def race_after_cancel_def race_after_begin_def example_world_def
       example_message_def example_socket_def update_where_def checkAndWarn_def canSend_def
       getSentTodayCount_def sentTodayRow_def example_config_def warnThreshold_def Let_def)
  have 4: "outbox race_after_cancel = [(''919876543210@s.whatsapp.net'', Text ''Hi'')]"
    by (simp add: race_after_cancel_def race_after_begin_def)
  show ?thesis using 1 2 3 4 by simp
qed

subsection \<open>Which statuses the dispatch steps respect\<close>

lemma retryMessage_not_failed:
  assumes "\<forall>m \<in> set (messages w). msg_id m = i \<longrightarrow> status m \<noteq> Failed"
  shows "retryMessage w i now = (None, w)"
proof -
  let ?p = "\<lambda>m. msg_id m = i \<and> status m = Failed"
  have n: "\<forall>m \<in> set (messages w). \<not> ?p m"
    using assms by blast
  have "find ?p (messages w) = None"
    using n by (simp add: find_None_iff)
  moreover have "update_where ?p
                   (\<lambda>m. m\<lparr>status := Pending, attempts := 0, failedAt := None, failureReason := None,
                           scheduledAt := now, updatedAt := now\<rparr>) (messages w) = messages w"
    using n by (rule update_where_none)
  ultimately show ?thesis
    by (simp add: retryMessage_def returning_get_def Let_def)
qed

lemma retryMessage_failed:
  assumes d: "distinct (map msg_id (messages w))"
    and m0: "m0 \<in> set (messages w)" "msg_id m0 = i" "status m0 = Failed"
  shows "fst (retryMessage w i now)
           = Some (m0\<lparr>status := Pending, attempts := 0, failedAt := None, failureReason := None,
                      scheduledAt := now, updatedAt := now\<rparr>)"
proof -
  have "find (\<lambda>m. msg_id m = i \<and> status m = Failed) (messages w) = Some m0"
    using find_pred_unique [OF d m0(1) m0(2), of "\<lambda>m. status m = Failed"] m0(3) by simp
  then show ?thesis
    by (simp add: retryMessage_def returning_get_def Let_def)
qed

lemma onJobFailed_statuses:
  assumes "truthy (data_scheduledMessageId j)"
  shows "map status (messages (onJobFailed w (Some j) e now))
           = map (\<lambda>m. if msg_id m = the (data_scheduledMessageId j) then Failed else status m)
               (messages w)"
  using assms by (simp add: onJobFailed_def update_where_def Let_def)

lemma find_key: "find (\<lambda>m. k m = i) rows = Some m \<Longrightarrow> k m = i"
  by (auto simp: find_Some_iff)

text \<open>The cap-denied branch is taken for every status but cancelled.\<close>

lemma processSendJob_cap_denied:
  assumes f: "find (\<lambda>m. msg_id m = i) (messages w) = Some m"
    and s: "status m \<noteq> Cancelled"
    and cap: "\<not> allowed (canSend cfg (messages w) t)"
  shows "\<exists>w'. processSendJob dec sk cfg w i t t' = Completed w'
           \<and> map status (messages w')
               = map (\<lambda>r. if msg_id r = i then Failed else status r) (messages w)
           \<and> outbox w' = outbox w"
proof -
  have i: "msg_id m = i" using f by (rule find_key)
  show ?thesis
    using f s cap i
    by (simp add: processSendJob_def processSendJob_begin_def update_where_def Let_def comp_def)
qed

text \<open>So is the send: no status but cancelled keeps the dispatcher from sending.\<close>

lemma processSendJob_sends:
  assumes f: "find (\<lambda>m. msg_id m = i) (messages w) = Some m"
    and s: "status m \<noteq> Cancelled"
    and cap: "allowed (canSend cfg (messages w) t)"
    and jid: "resolveJid w m = Inr jid"
    and payload: "buildMessagePayload dec (content m) (mediaUrl m) (mediaType m) = Inr p"
    and sent: "socket jid p = Inr keyId"
  shows "\<exists>w'. processSendJob dec (Some socket) cfg w i t t' = Completed w'
           \<and> map status (messages w')
               = map (\<lambda>r. if msg_id r = i then Sent else status r) (messages w)
           \<and> outbox w' = outbox w @ [(jid, p)]"
proof -
  have i: "msg_id m = i" using f by (rule find_key)
  have b: "processSendJob_begin dec (Some socket) cfg w i t
             = Awaiting (w\<lparr>outbox := outbox w @ [(jid, p)]\<rparr>) m jid p"
    using f s cap jid payload by (simp add: processSendJob_begin_def Let_def)
  show ?thesis
    using sent i
    by (simp add: processSendJob_def b processSendJob_finish_def update_where_def Let_def comp_def)
qed

text \<open>
  C3, as the code has it. Of the terminal statuses the dispatcher tests only
  cancelled: \<open>processSendJob\<close> on a cancelled intent returns before the cap check
  and the send and leaves the world as it found it. The service operations keep
  terminal statuses: Cancel acts on pending rows only and Retry on failed rows only,
  taking them from failed to pending. The handler of the \<open>failed\<close> event updates by
  id alone: it sets failed on the intent of the job whatever its status was. And
  \<open>processSendJob\<close> on an intent in any status but cancelled, sent, delivered and
  failed included, dispatches it again: when the limiter denies, the cap-denied
  branch writes failed; when the limiter allows, the address resolves, the socket
  is there and the provider accepts, the message is sent once more and the status
  written is sent.
\<close>

theorem dispatch_respects_cancelled_only:
  "(find (\<lambda>m. msg_id m = i) (messages w) = Some m \<and> status m = Cancelled \<longrightarrow>
      processSendJob_begin dec sk cfg w i t = Completed w
    \<and> processSendJob dec sk cfg w i t t' = Completed w)
   \<and> ((\<forall>m \<in> set (messages w). msg_id m = i \<longrightarrow> status m \<noteq> Pending)
        \<longrightarrow> cancelMessage w i now = (None, w))
   \<and> ((\<forall>m \<in> set (messages w). msg_id m = i \<longrightarrow> status m \<noteq> Failed)
        \<longrightarrow> retryMessage w i now = (None, w))
   \<and> (distinct (map msg_id (messages w)) \<longrightarrow>
        (\<forall>m0 \<in> set (messages w). msg_id m0 = i \<and> status m0 = Failed \<longrightarrow>
           fst (retryMessage w i now)
             = Some (m0\<lparr>status := Pending, attempts := 0, failedAt := None, failureReason := None,
                        scheduledAt := now, updatedAt := now\<rparr>)))
   \<and> (truthy (data_scheduledMessageId j) \<longrightarrow>
        map status (messages (onJobFailed w (Some j) e now))
          = map (\<lambda>m. if msg_id m = the (data_scheduledMessageId j) then Failed else status m)
              (messages w))
   \<and> (find (\<lambda>m. msg_id m = i) (messages w) = Some m \<and> status m \<noteq> Cancelled
        \<and> \<not> allowed (canSend cfg (messages w) t) \<longrightarrow>
        (\<exists>w'. processSendJob dec sk cfg w i t t' = Completed w'
           \<and> map status (messages w')
               = map (\<lambda>r. if msg_id r = i then Failed else status r) (messages w)
           \<and> outbox w' = outbox w))
   \<and> (find (\<lambda>m. msg_id m = i) (messages w) = Some m \<and> status m \<noteq> Cancelled
        \<and> allowed (canSend cfg (messages w) t)
        \<and> resolveJid w m = Inr jid
        \<and> buildMessagePayload dec (content m) (mediaUrl m) (mediaType m) = Inr p
        \<and> socket jid p = Inr keyId \<longrightarrow>
        (\<exists>w'. processSendJob dec (Some socket) cfg w i t t' = Completed w'
           \<and> map status (messages w')
               = map (\<lambda>r. if msg_id r = i then Sent else status r) (messages w)
           \<and> outbox w' = outbox w @ [(jid, p)]))"
proof (intro conjI impI)
  assume h: "find (\<lambda>m. msg_id m = i) (messages w) = Some m \<and> status m = Cancelled"
  show "processSendJob_begin dec sk cfg w i t = Completed w"
    using h processSendJob_begin_cancelled by blast
  show "processSendJob dec sk cfg w i t t' = Completed w"
    using h processSendJob_cancelled by blast
next
  assume "\<forall>m \<in> set (messages w). msg_id m = i \<longrightarrow> status m \<noteq> Pending"
  then show "cancelMessage w i now = (None, w)"
    by (rule cancelMessage_not_pending)
next
  assume "\<forall>m \<in> set (messages w). msg_id m = i \<longrightarrow> status m \<noteq> Failed"
  then show "retryMessage w i now = (None, w)"
    by (rule retryMessage_not_failed)
next
  assume "distinct (map msg_id (messages w))"
  then show "\<forall>m0 \<in> set (messages w). msg_id m0 = i \<and> status m0 = Failed \<longrightarrow>
           fst (retryMessage w i now)
             = Some (m0\<lparr>status := Pending, attempts := 0, failedAt := None, failureReason := None,
                        scheduledAt := now, updatedAt := now\<rparr>)"
    using retryMessage_failed by blast
next
  assume "truthy (data_scheduledMessageId j)"
  then show "map status (messages (onJobFailed w (Some j) e now))
          = map (\<lambda>m. if msg_id m = the (data_scheduledMessageId j) then Failed else status m)
              (messages w)"
    by (rule onJobFailed_statuses)
next
  assume "find (\<lambda>m. msg_id m = i) (messages w) = Some m \<and> status m \<noteq> Cancelled
        \<and> \<not> allowed (canSend cfg (messages w) t)"
  then show "\<exists>w'. processSendJob dec sk cfg w i t t' = Completed w'
           \<and> map status (messages w')
               = map (\<lambda>r. if msg_id r = i then Failed else status r) (messages w)
           \<and> outbox w' = outbox w"
    using processSendJob_cap_denied by blast
next
  assume "find (\<lambda>m. msg_id m = i) (messages w) = Some m \<and> status m \<noteq> Cancelled
        \<and> allowed (canSend cfg (messages w) t)
        \<and> resolveJid w m = Inr jid
        \<and> buildMessagePayload dec (content m) (mediaUrl m) (mediaType m) = Inr p
        \<and> socket jid p = Inr keyId"
  then show "\<exists>w'. processSendJob dec (Some socket) cfg w i t t' = Completed w'
           \<and> map status (messages w')
               = map (\<lambda>r. if msg_id r = i then Sent else status r) (messages w)
           \<and> outbox w' = outbox w @ [(jid, p)]"
    using processSendJob_sends by blast
qed

theorem dispatch_respects_cancelled_only_witness:
  "processSendJob Some (Some example_socket) example_config (world_with Cancelled None) ''m1''
      1700000002000 1700000003000 = Completed (world_with Cancelled None)
   \<and> cancelMessage (world_with Sent None) ''m1'' 1700000002000 = (None, world_with Sent None)
   \<and> retryMessage (world_with Sent None) ''m1'' 1700000002000 = (None, world_with Sent None)
   \<and> fst (retryMessage (world_with Failed None) ''m1'' 1700000002000)
       = Some (example_message\<lparr>status := Pending, scheduledAt := 1700000002000,
                 updatedAt := 1700000002000\<rparr>)
   \<and> map status (messages (onJobFailed (world_with Sent None)
        (Some \<lparr>data_scheduledMessageId = Some ''m1'', attemptsMade = Some 2\<rparr>) ''boom'' 1700000002000))
       = [Failed]
   \<and> (\<exists>w'. processSendJob Some (Some example_socket) (example_config\<lparr>daily_cap := 1\<rparr>)
               epoch_world ''m1'' 10000 11000 = Completed w'
           \<and> map status (messages w') = [Failed] \<and> outbox w' = [])
   \<and> (\<exists>w'. processSendJob Some (Some example_socket) example_config
               (world_with Delivered (Some ''WAMID0'')) ''m1'' 1700000002000 1700000003000
             = Completed w'
           \<and> map status (messages w') = [Sent]
           \<and> outbox w' = [(''919876543210@s.whatsapp.net'', Text ''Hi'')])"
proof -
  let ?j = "\<lparr>data_scheduledMessageId = Some ''m1'', attemptsMade = Some 2\<rparr>"
  have c: "find (\<lambda>m. msg_id m = ''m1'') (messages (world_with Cancelled None))
             = Some (example_message\<lparr>status := Cancelled, whatsappMessageId := None\<rparr>)
           \<and> status (example_message\<lparr>status := Cancelled, whatsappMessageId := None\<rparr>) = Cancelled"
    by (simp add: world_with_def example_world_def example_message_def)
  have s: "\<forall>m \<in> set (messages (world_with Sent None)). msg_id m = ''m1'' \<longrightarrow> status m \<noteq> Pending"
      "\<forall>m \<in> set (messages (world_with Sent None)). msg_id m = ''m1'' \<longrightarrow> status m \<noteq> Failed"
      "truthy (data_scheduledMessageId ?j)"
    by (simp_all add: world_with_def example_world_def truthy_def)
  have f: "distinct (map msg_id (messages (world_with Failed None)))"
      "example_message\<lparr>status := Failed, whatsappMessageId := None\<rparr> \<in> set (messages (world_with Failed None))"
      "msg_id (example_message\<lparr>status := Failed, whatsappMessageId := None\<rparr>) = ''m1''
       \<and> status (example_message\<lparr>status := Failed, whatsappMessageId := None\<rparr>) = Failed"
    by (simp_all add: world_with_def example_world_def example_message_def)
  have 1: "processSendJob Some (Some example_socket) example_config (world_with Cancelled None) ''m1''
      1700000002000 1700000003000 = Completed (world_with Cancelled None)"
    using dispatch_respects_cancelled_only
            [of "''m1''" "world_with Cancelled None" _ Some "Some example_socket" example_config
               1700000002000 1700000003000] c
    by blast
  have 2: "cancelMessage (world_with Sent None) ''m1'' 1700000002000 = (None, world_with Sent None)"
      "retryMessage (world_with Sent None) ''m1'' 1700000002000 = (None, world_with Sent None)"
      "map status (messages (onJobFailed (world_with Sent None) (Some ?j) ''boom'' 1700000002000))
         = map (\<lambda>m. if msg_id m = the (data_scheduledMessageId ?j) then Failed else status m)
             (messages (world_with Sent None))"
    using dispatch_respects_cancelled_only
            [of "''m1''" "world_with Sent None" _ _ _ _ _ _ 1700000002000 ?j "''boom''"] s
    by blast+
  have 3: "fst (retryMessage (world_with Failed None) ''m1'' 1700000002000)
       = Some (example_message\<lparr>status := Failed, whatsappMessageId := None\<rparr>
                 \<lparr>status := Pending, attempts := 0, failedAt := None, failureReason := None,
                        scheduledAt := 1700000002000, updatedAt := 1700000002000\<rparr>)"
    using dispatch_respects_cancelled_only
            [of "''m1''" "world_with Failed None" _ _ _ _ _ _ 1700000002000] f
    by blast
  let ?e = "example_message\<lparr>status := Sent, sentAt := Some 5000\<rparr>"
  have today: "getTodayIST 10000 = - 19800000"
    by (simp add: getTodayIST_def js_rem_def Let_def)
  have denied: "find (\<lambda>m. msg_id m = ''m1'') (messages epoch_world) = Some ?e
        \<and> status ?e \<noteq> Cancelled
        \<and> \<not> allowed (canSend (example_config\<lparr>daily_cap := 1\<rparr>) (messages epoch_world) 10000)"
    by (simp add: epoch_world_def example_world_def example_message_def example_config_def
          canSend_def getSentTodayCount_def sentTodayRow_def mapToDriverValue_def today Let_def)
  have 4: "\<exists>w'. processSendJob Some (Some example_socket) (example_config\<lparr>daily_cap := 1\<rparr>)
               epoch_world ''m1'' 10000 11000 = Completed w'
           \<and> map status (messages w')
               = map (\<lambda>r. if msg_id r = ''m1'' then Failed else status r) (messages epoch_world)
           \<and> outbox w' = outbox epoch_world"
    using dispatch_respects_cancelled_only
            [of "''m1''" epoch_world ?e Some "Some example_socket" "example_config\<lparr>daily_cap := 1\<rparr>"
               10000 11000] denied
    by blast
  let ?d = "example_message\<lparr>status := Delivered, whatsappMessageId := Some ''WAMID0''\<rparr>"
  have allowed: "find (\<lambda>m. msg_id m = ''m1'') (messages (world_with Delivered (Some ''WAMID0''))) = Some ?d
        \<and> status ?d \<noteq> Cancelled
        \<and> allowed (canSend example_config (messages (world_with Delivered (Some ''WAMID0''))) 1700000002000)
        \<and> resolveJid (world_with Delivered (Some ''WAMID0'')) ?d = Inr ''919876543210@s.whatsapp.net''
        \<and> buildMessagePayload Some (content ?d) (mediaUrl ?d) (mediaType ?d) = Inr (Text ''Hi'')
        \<and> example_socket ''919876543210@s.whatsapp.net'' (Text ''Hi'') = Inr (Some ''WAMID1'')"
    by (simp add: world_with_def example_world_def example_message_def example_config_def
          example_contact_def example_socket_def canSend_def getSentTodayCount_def sentTodayRow_def
          resolveJid_def truthy_def buildMessagePayload_def Let_def)
  have 5: "\<exists>w'. processSendJob Some (Some example_socket) example_config
               (world_with Delivered (Some ''WAMID0'')) ''m1'' 1700000002000 1700000003000
             = Completed w'
           \<and> map status (messages w')
               = map (\<lambda>r. if msg_id r = ''m1'' then Sent else status r)
                   (messages (world_with Delivered (Some ''WAMID0'')))
           \<and> outbox w' = outbox (world_with Delivered (Some ''WAMID0''))
                            @ [(''919876543210@s.whatsapp.net'', Text ''Hi'')]"
    using dispatch_respects_cancelled_only
            [where i = "''m1''" and w = "world_with Delivered (Some ''WAMID0'')" and m = ?d
               and dec = Some and cfg = example_config and t = 1700000002000
               and t' = 1700000003000 and jid = "''919876543210@s.whatsapp.net''"
               and p = "Text ''Hi''" and socket = example_socket and keyId = "Some ''WAMID1''"]
            allowed
    by blast
  have e4: "map (\<lambda>r. if msg_id r = ''m1'' then Failed else status r) (messages epoch_world) = [Failed]"
      "outbox epoch_world = []"
    by (simp_all add: epoch_world_def example_world_def example_message_def)
  have e5: "map (\<lambda>r. if msg_id r = ''m1'' then Sent else status r)
              (messages (world_with Delivered (Some ''WAMID0''))) = [Sent]"
      "outbox (world_with Delivered (Some ''WAMID0'')) = []"
    by (simp_all add: world_with_def example_world_def example_message_def)
  have retry3: "fst (retryMessage (world_with Failed None) ''m1'' 1700000002000)
       = Some (example_message\<lparr>status := Pending, scheduledAt := 1700000002000,
                 updatedAt := 1700000002000\<rparr>)"
    unfolding 3 by (simp add: example_message_def)
  have failed2: "map status (messages (onJobFailed (world_with Sent None) (Some ?j) ''boom'' 1700000002000))
       = [Failed]"
    unfolding 2(3) by (simp add: world_with_def example_world_def example_message_def)
  show ?thesis
    using 4 5 unfolding e4 e5 append_Nil
    by (intro conjI 1 2(1) 2(2) retry3 failed2)
qed

text \<open>
  The claim as stated fails for the dispatch steps it names. A failed intent whose
  job runs again is sent and becomes sent, with no Retry. A delivered intent whose
  job runs again is sent a second time and goes back to sent. The handler of the
  \<open>failed\<close> event marks a cancelled intent failed.
\<close>

theorem terminal_status_rewritten_by_dispatch:
  "processSendJob Some (Some example_socket) example_config (world_with Failed None) ''m1''
      1700000002000 1700000003000
     = Completed ((world_with Failed None)\<lparr>messages :=
          [example_message\<lparr>status := Sent, whatsappMessageId := Some ''WAMID1'',
             sentAt := Some 1700000003000, attempts := 1, updatedAt := 1700000003000\<rparr>],
          outbox := [(''919876543210@s.whatsapp.net'', Text ''Hi'')],
          broadcasts := [MessageSent ''m1'' 1700000003000]\<rparr>)
   \<and> processSendJob Some (Some example_socket) example_config delivered_world ''m1''
        1700000002000 1700000003000
     = Completed (delivered_world\<lparr>messages :=
          [example_message\<lparr>status := Sent, whatsappMessageId := Some ''WAMID1'',
             sentAt := Some 1700000003000, deliveredAt := Some 1699999941000,
             attempts := 2, updatedAt := 1700000003000\<rparr>],
          outbox := [(''919876543210@s.whatsapp.net'', Text ''Hi'')],
          broadcasts := [MessageSent ''m1'' 1700000003000]\<rparr>)
   \<and> onJobFailed (world_with Cancelled None)
        (Some \<lparr>data_scheduledMessageId = Some ''m1'', attemptsMade = Some 0\<rparr>) ''boom'' 1700000002000
     = (world_with Cancelled None)\<lparr>messages :=
          [example_message\<lparr>status := Failed, failedAt := Some 1700000002000,
             failureReason := Some ''boom'', attempts := 1, updatedAt := 1700000002000\<rparr>],
          broadcasts := [MessageFailed ''m1'' ''boom'' 1700000002000]\<rparr>"
proof -
  have today: "getTodayIST 1700000002000 = 1699986600000" "getTodayIST 1700000003000 = 1699986600000"
    by (simp_all add: getTodayIST_def js_rem_def Let_def)
  have 1: "processSendJob Some (Some example_socket) example_config (world_with Failed None) ''m1''
      1700000002000 1700000003000
     = Completed ((world_with Failed None)\<lparr>messages :=
          [example_message\<lparr>status := Sent, whatsappMessageId := Some ''WAMID1'',
             sentAt := Some 1700000003000, attempts := 1, updatedAt := 1700000003000\<rparr>],
          outbox := [(''919876543210@s.whatsapp.net'', Text ''Hi'')],
          broadcasts := [MessageSent ''m1'' 1700000003000]\<rparr>)"
    by (simp add: processSendJob_def processSendJob_begin_def processSendJob_finish_def
          world_with_def example_world_def example_message_def example_config_def example_contact_def
          example_socket_def canSend_def getSentTodayCount_def sentTodayRow_def mapToDriverValue_def
          resolveJid_def truthy_def buildMessagePayload_def update_where_def checkAndWarn_def
          warnThreshold_def today Let_def)
  have 2: "processSendJob Some (Some example_socket) example_config delivered_world ''m1''
        1700000002000 1700000003000
     = Completed (delivered_world\<lparr>messages :=
          [example_message\<lparr>status := Sent, whatsappMessageId := Some ''WAMID1'',
             sentAt := Some 1700000003000, deliveredAt := Some 1699999941000,
             attempts := 2, updatedAt := 1700000003000\<rparr>],
          outbox := [(''919876543210@s.whatsapp.net'', Text ''Hi'')],
          broadcasts := [MessageSent ''m1'' 1700000003000]\<rparr>)"
    by (simp add: processSendJob_def processSendJob_begin_def processSendJob_finish_def
          delivered_world_def example_world_def example_message_def example_config_def
          example_contact_def example_socket_def canSend_def getSentTodayCount_def sentTodayRow_def
          mapToDriverValue_def resolveJid_def truthy_def buildMessagePayload_def update_where_def
          checkAndWarn_def warnThreshold_def today Let_def)
  have 3: "onJobFailed (world_with Cancelled None)
        (Some \<lparr>data_scheduledMessageId = Some ''m1'', attemptsMade = Some 0\<rparr>) ''boom'' 1700000002000
     = (world_with Cancelled None)\<lparr>messages :=
          [example_message\<lparr>status := Failed, failedAt := Some 1700000002000,
             failureReason := Some ''boom'', attempts := 1, updatedAt := 1700000002000\<rparr>],
          broadcasts := [MessageFailed ''m1'' ''boom'' 1700000002000]\<rparr>"
    by (simp add: onJobFailed_def world_with_def example_world_def example_message_def truthy_def
          update_where_def Let_def)
  show ?thesis by (intro conjI 1 2 3)
qed



subsection \<open>Delivery acknowledgements\<close>

lemma handleUpdate_delivered:
  assumes "kid \<noteq> []"
  shows "handleUpdate w \<lparr>key_id = Some kid, update_status = Some 3\<rparr> now =
           w\<lparr>messages := map (\<lambda>m. if whatsappMessageId m = Some kid
                                    then m\<lparr>status := Delivered, deliveredAt := Some now, updatedAt := now\<rparr>
                                    else m) (messages w),
              broadcasts := broadcasts w @
                (case find (\<lambda>m. whatsappMessageId m = Some kid) (messages w) of
                   None \<Rightarrow> []
                 | Some m \<Rightarrow> [MessageStatus (msg_id m) Delivered now])\<rparr>"
  using assms
  by (cases "find (\<lambda>m. whatsappMessageId m = Some kid) (messages w)")
     (simp_all add: handleUpdate_def truthy_def returning_get_def update_where_def Let_def)

lemma handleUpdate_other_status:
  assumes "s \<noteq> 3"
  shows "handleUpdate w \<lparr>key_id = k, update_status = Some s\<rparr> now = w"
  using assms by (simp add: handleUpdate_def)

text \<open>
  C6, as the code has it. An ack whose status is not 3 changes nothing. An ack with
  status 3 and a non-empty key id rewrites every intent stored under that provider
  message id, whatever its status: status delivered, \<open>deliveredAt\<close> and
  \<open>updatedAt\<close> the time of the ack; it changes no other intent, and broadcasts one
  \<open>message:status\<close> event when a row matched. A second ack for the same id leaves
  every status as the first ack left it.
\<close>

theorem delivery_ack_updates_by_provider_id:
  "(s \<noteq> 3 \<longrightarrow> handleUpdate w \<lparr>key_id = k, update_status = Some s\<rparr> now = w)
   \<and> (kid \<noteq> [] \<longrightarrow>
        messages (handleUpdate w \<lparr>key_id = Some kid, update_status = Some 3\<rparr> now)
          = map (\<lambda>m. if whatsappMessageId m = Some kid
                      then m\<lparr>status := Delivered, deliveredAt := Some now, updatedAt := now\<rparr>
                      else m) (messages w)
      \<and> broadcasts (handleUpdate w \<lparr>key_id = Some kid, update_status = Some 3\<rparr> now)
          = broadcasts w @
              (case find (\<lambda>m. whatsappMessageId m = Some kid) (messages w) of
                 None \<Rightarrow> []
               | Some m \<Rightarrow> [MessageStatus (msg_id m) Delivered now])
      \<and> map status (messages (handleUpdate
            (handleUpdate w \<lparr>key_id = Some kid, update_status = Some 3\<rparr> now)
            \<lparr>key_id = Some kid, update_status = Some 3\<rparr> now'))
          = map status (messages (handleUpdate w \<lparr>key_id = Some kid, update_status = Some 3\<rparr> now)))"
proof -
  have A: "handleUpdate w \<lparr>key_id = k, update_status = Some s\<rparr> now = w" if "s \<noteq> 3"
    using that by (rule handleUpdate_other_status)
  have B: "map status (messages (handleUpdate
            (handleUpdate w \<lparr>key_id = Some kid, update_status = Some 3\<rparr> now)
            \<lparr>key_id = Some kid, update_status = Some 3\<rparr> now'))
          = map status (messages (handleUpdate w \<lparr>key_id = Some kid, update_status = Some 3\<rparr> now))"
    if "kid \<noteq> []"
    by (simp add: handleUpdate_delivered [OF that] comp_def)
  show ?thesis
    using A B by (simp add: handleUpdate_delivered)
qed

theorem delivery_ack_updates_by_provider_id_witness:
  "handleUpdate (world_with Sent (Some ''WAMID1'')) \<lparr>key_id = Some ''WAMID1'', update_status = Some 4\<rparr>
       1700000003000 = world_with Sent (Some ''WAMID1'')
   \<and> map status (messages (handleUpdate (world_with Sent (Some ''WAMID1''))
        \<lparr>key_id = Some ''WAMID1'', update_status = Some 3\<rparr> 1700000003000)) = [Delivered]
   \<and> broadcasts (handleUpdate (world_with Sent (Some ''WAMID1''))
        \<lparr>key_id = Some ''WAMID1'', update_status = Some 3\<rparr> 1700000003000)
       = [MessageStatus ''m1'' Delivered 1700000003000]"
proof -
  have h: "(4::int) \<noteq> 3" "''WAMID1'' \<noteq> []" by simp_all
  show ?thesis
    using delivery_ack_updates_by_provider_id
            [of 4 "world_with Sent (Some ''WAMID1'')" "Some ''WAMID1''" 1700000003000 "''WAMID1''"] h
    by (simp add: world_with_def example_world_def example_message_def)
qed

text \<open>
  The claim as stated fails on both counts. A second ack for the same provider
  message id is not a no-op: it moves \<open>deliveredAt\<close> and \<open>updatedAt\<close> to the time of
  the second ack and broadcasts a second event. And the update is not restricted to
  intents in status sent: an intent in status failed that carries the provider
  message id becomes delivered.
\<close>

theorem second_delivery_ack_rewrites_row:
  "handleUpdate (world_with Sent (Some ''WAMID1'')) delivery_ack 1700000003000
     = (world_with Sent (Some ''WAMID1''))\<lparr>messages :=
          [example_message\<lparr>status := Delivered, whatsappMessageId := Some ''WAMID1'',
             deliveredAt := Some 1700000003000, updatedAt := 1700000003000\<rparr>],
          broadcasts := [MessageStatus ''m1'' Delivered 1700000003000]\<rparr>
   \<and> onMessagesUpdate (world_with Sent (Some ''WAMID1''))
        [(delivery_ack, 1700000003000), (delivery_ack, 1700000004000)]
     = (world_with Sent (Some ''WAMID1''))\<lparr>messages :=
          [example_message\<lparr>status := Delivered, whatsappMessageId := Some ''WAMID1'',
             deliveredAt := Some 1700000004000, updatedAt := 1700000004000\<rparr>],
          broadcasts := [MessageStatus ''m1'' Delivered 1700000003000,
                         MessageStatus ''m1'' Delivered 1700000004000]\<rparr>
   \<and> handleUpdate (world_with Failed (Some ''WAMID1'')) delivery_ack 1700000003000
     = (world_with Failed (Some ''WAMID1''))\<lparr>messages :=
          [example_message\<lparr>status := Delivered, whatsappMessageId := Some ''WAMID1'',
             deliveredAt := Some 1700000003000, updatedAt := 1700000003000\<rparr>],
          broadcasts := [MessageStatus ''m1'' Delivered 1700000003000]\<rparr>"
  by (simp add: handleUpdate_def delivery_ack_def world_with_def example_world_def
        example_message_def truthy_def returning_get_def update_where_def Let_def)

subsection \<open>Disconnect policy\<close>

lemma resetToPairing_clearAuthState:
  "authState (resetToPairing env (clearAuthState m)) = []"
  "conn_status (resetToPairing env (clearAuthState m)) = Pairing"
  "sock (resetToPairing env (clearAuthState m)) = created env"
  "reconnectTimer (resetToPairing env (clearAuthState m)) = None"
  "reconnectAttempt (resetToPairing env (clearAuthState m)) = 0"
  by (cases "created env";
      simp add: resetToPairing_def clearAuthState_def connect_def cleanupSocket_def)+

lemma reconnectWithBackoff_schedules:
  assumes "\<not> isRetryWindowExhausted (case retryStartedAt m of None \<Rightarrow> new_Date env | Some t \<Rightarrow> t)
               (maxRetryMs config) (Date_now env)"
  shows "reconnectTimer (reconnectWithBackoff config env m)
           = Some (calculateBackoff (reconnectAttempt m) (backoffConfig config) (random env))"
    and "conn_status (reconnectWithBackoff config env m) = Connecting"
    and "reconnectAttempt (reconnectWithBackoff config env m) = reconnectAttempt m + 1"
    and "sock (reconnectWithBackoff config env m) = sock m"
    and "authState (reconnectWithBackoff config env m) = authState m"
  using assms
  by (cases "retryStartedAt m";
      simp add: reconnectWithBackoff_def scheduleReconnect_def broadcastStatus_def Let_def)+

lemma reconnectWithBackoff_gives_up:
  assumes "isRetryWindowExhausted (case retryStartedAt m of None \<Rightarrow> new_Date env | Some t \<Rightarrow> t)
               (maxRetryMs config) (Date_now env)"
  shows "reconnectWithBackoff config env m = resetToPairing env (clearAuthState m)"
  using assms
  by (cases "retryStartedAt m")
     (simp_all add: reconnectWithBackoff_def resetToPairing_def clearAuthState_def Let_def)

text \<open>
  C4. \<open>handleDisconnect\<close> maps the codes to the policies of the specification.
  Codes 401 and 403 clear every row of the credential table and reset to pairing,
  connecting at once: the new socket is in place when the handler returns and no
  timer is pending. Code 440 sets the status to disconnected and schedules nothing:
  timer, socket and credentials stay as they were. Code 515 schedules the reconnect
  with delay 0. Every other code goes to \<open>reconnectWithBackoff\<close>, which, while the
  retry window is open, schedules the reconnect after
  \<open>calculateBackoff(reconnectAttempt)\<close>, counts the attempt and sets the status to
  connecting (and which, once the window is exhausted, clears the credentials and
  resets to pairing).
\<close>

theorem handleDisconnect_policy:
  "handleDisconnect config env m 401 = resetToPairing env (clearAuthState m)
   \<and> handleDisconnect config env m 403 = resetToPairing env (clearAuthState m)
   \<and> authState (resetToPairing env (clearAuthState m)) = []
   \<and> conn_status (resetToPairing env (clearAuthState m)) = Pairing
   \<and> sock (resetToPairing env (clearAuthState m)) = created env
   \<and> reconnectTimer (resetToPairing env (clearAuthState m)) = None
   \<and> handleDisconnect config env m 440 = broadcastStatus env (m\<lparr>conn_status := Disconnected\<rparr>)
   \<and> conn_status (handleDisconnect config env m 440) = Disconnected
   \<and> reconnectTimer (handleDisconnect config env m 440) = reconnectTimer m
   \<and> sock (handleDisconnect config env m 440) = sock m
   \<and> authState (handleDisconnect config env m 440) = authState m
   \<and> handleDisconnect config env m 515 = m\<lparr>reconnectTimer := Some 0\<rparr>
   \<and> (code \<notin> {401, 440, 515, 403} \<longrightarrow>
        handleDisconnect config env m code = reconnectWithBackoff config env m
      \<and> (\<not> isRetryWindowExhausted (case retryStartedAt m of None \<Rightarrow> new_Date env | Some t \<Rightarrow> t)
               (maxRetryMs config) (Date_now env) \<longrightarrow>
            reconnectTimer (handleDisconnect config env m code)
              = Some (calculateBackoff (reconnectAttempt m) (backoffConfig config) (random env))
          \<and> conn_status (handleDisconnect config env m code) = Connecting
          \<and> reconnectAttempt (handleDisconnect config env m code) = reconnectAttempt m + 1
          \<and> authState (handleDisconnect config env m code) = authState m)
      \<and> (isRetryWindowExhausted (case retryStartedAt m of None \<Rightarrow> new_Date env | Some t \<Rightarrow> t)
               (maxRetryMs config) (Date_now env) \<longrightarrow>
            handleDisconnect config env m code = resetToPairing env (clearAuthState m)))"
proof -
  have fixed: "handleDisconnect config env m 401 = resetToPairing env (clearAuthState m)"
      "handleDisconnect config env m 403 = resetToPairing env (clearAuthState m)"
      "handleDisconnect config env m 440 = broadcastStatus env (m\<lparr>conn_status := Disconnected\<rparr>)"
      "handleDisconnect config env m 515 = m\<lparr>reconnectTimer := Some 0\<rparr>"
    by (simp_all add: handleDisconnect_def scheduleReconnect_def)
  have replaced: "conn_status (handleDisconnect config env m 440) = Disconnected"
      "reconnectTimer (handleDisconnect config env m 440) = reconnectTimer m"
      "sock (handleDisconnect config env m 440) = sock m"
      "authState (handleDisconnect config env m 440) = authState m"
    by (simp_all add: fixed broadcastStatus_def)
  have other: "handleDisconnect config env m code = reconnectWithBackoff config env m"
    if "code \<notin> {401, 440, 515, 403}"
    using that by (simp add: handleDisconnect_def)
  let ?exhausted = "isRetryWindowExhausted
      (case retryStartedAt m of None \<Rightarrow> new_Date env | Some t \<Rightarrow> t) (maxRetryMs config) (Date_now env)"
  have backoff: "reconnectTimer (handleDisconnect config env m code)
              = Some (calculateBackoff (reconnectAttempt m) (backoffConfig config) (random env))
          \<and> conn_status (handleDisconnect config env m code) = Connecting
          \<and> reconnectAttempt (handleDisconnect config env m code) = reconnectAttempt m + 1
          \<and> authState (handleDisconnect config env m code) = authState m"
    if "code \<notin> {401, 440, 515, 403}" "\<not> ?exhausted"
    unfolding other [OF that(1)] using reconnectWithBackoff_schedules [OF that(2)] by blast
  have gives_up: "handleDisconnect config env m code = resetToPairing env (clearAuthState m)"
    if "code \<notin> {401, 440, 515, 403}" "?exhausted"
    unfolding other [OF that(1)] using that(2) by (rule reconnectWithBackoff_gives_up)
  have last: "code \<notin> {401, 440, 515, 403} \<longrightarrow>
        handleDisconnect config env m code = reconnectWithBackoff config env m
      \<and> (\<not> ?exhausted \<longrightarrow>
            reconnectTimer (handleDisconnect config env m code)
              = Some (calculateBackoff (reconnectAttempt m) (backoffConfig config) (random env))
          \<and> conn_status (handleDisconnect config env m code) = Connecting
          \<and> reconnectAttempt (handleDisconnect config env m code) = reconnectAttempt m + 1
          \<and> authState (handleDisconnect config env m code) = authState m)
      \<and> (?exhausted \<longrightarrow>
            handleDisconnect config env m code = resetToPairing env (clearAuthState m))"
    using other backoff gives_up by blast
  show ?thesis
    by (intro conjI fixed replaced resetToPairing_clearAuthState last)
qed

theorem handleDisconnect_policy_witness:
  "handleDisconnect example_reconnect_config example_env manager_opened 428
     = reconnectWithBackoff example_reconnect_config example_env manager_opened
   \<and> reconnectTimer (handleDisconnect example_reconnect_config example_env manager_opened 428)
     = Some 1000
   \<and> conn_status (handleDisconnect example_reconnect_config example_env manager_opened 428)
     = Connecting
   \<and> handleDisconnect example_reconnect_config (example_env\<lparr>Date_now := 1700001800001\<rparr>)
        (manager_opened\<lparr>retryStartedAt := Some 1700000000000\<rparr>) 428
     = resetToPairing (example_env\<lparr>Date_now := 1700001800001\<rparr>)
         (clearAuthState (manager_opened\<lparr>retryStartedAt := Some 1700000000000\<rparr>))"
proof -
  have c: "(428::int) \<notin> {401, 440, 515, 403}" by simp
  have a: "reconnectAttempt manager_opened = 0" "retryStartedAt manager_opened = None"
    by (simp_all add: manager_opened_def manager_started_def handleConnectionUpdate_def
          connect_def cleanupSocket_def new_manager_def example_env_def example_socket_object_def
          broadcastStatus_def truthy_def Let_def)
  have open_window:
    "\<not> isRetryWindowExhausted (case retryStartedAt manager_opened of
                                   None \<Rightarrow> new_Date example_env | Some t \<Rightarrow> t)
         (maxRetryMs example_reconnect_config) (Date_now example_env)"
    by (simp add: a isRetryWindowExhausted_def maxRetryMs_def example_env_def
          example_reconnect_config_def)
  have closed_window:
    "isRetryWindowExhausted
       (case retryStartedAt (manager_opened\<lparr>retryStartedAt := Some 1700000000000\<rparr>) of
          None \<Rightarrow> new_Date (example_env\<lparr>Date_now := 1700001800001\<rparr>) | Some t \<Rightarrow> t)
       (maxRetryMs example_reconnect_config) (Date_now (example_env\<lparr>Date_now := 1700001800001\<rparr>))"
    by (simp add: isRetryWindowExhausted_def maxRetryMs_def example_reconnect_config_def)
  have delay: "calculateBackoff (reconnectAttempt manager_opened)
                 (backoffConfig example_reconnect_config) (random example_env) = 1000"
    by (simp add: a calculateBackoff_def backoffConfig_def example_reconnect_config_def
          example_env_def Let_def)
  have 1: "handleDisconnect example_reconnect_config example_env manager_opened 428
             = reconnectWithBackoff example_reconnect_config example_env manager_opened
         \<and> reconnectTimer (handleDisconnect example_reconnect_config example_env manager_opened 428)
             = Some (calculateBackoff (reconnectAttempt manager_opened)
                       (backoffConfig example_reconnect_config) (random example_env))
         \<and> conn_status (handleDisconnect example_reconnect_config example_env manager_opened 428)
             = Connecting"
    using handleDisconnect_policy [of example_reconnect_config example_env manager_opened 428]
      c open_window by blast
  have 2: "handleDisconnect example_reconnect_config (example_env\<lparr>Date_now := 1700001800001\<rparr>)
        (manager_opened\<lparr>retryStartedAt := Some 1700000000000\<rparr>) 428
     = resetToPairing (example_env\<lparr>Date_now := 1700001800001\<rparr>)
         (clearAuthState (manager_opened\<lparr>retryStartedAt := Some 1700000000000\<rparr>))"
    using handleDisconnect_policy
            [of example_reconnect_config "example_env\<lparr>Date_now := 1700001800001\<rparr>"
               "manager_opened\<lparr>retryStartedAt := Some 1700000000000\<rparr>" 428]
      c closed_window by blast
  from 1 have path: "handleDisconnect example_reconnect_config example_env manager_opened 428
             = reconnectWithBackoff example_reconnect_config example_env manager_opened"
    and timer: "reconnectTimer (handleDisconnect example_reconnect_config example_env manager_opened 428)
             = Some (calculateBackoff (reconnectAttempt manager_opened)
                       (backoffConfig example_reconnect_config) (random example_env))"
    and connecting: "conn_status (handleDisconnect example_reconnect_config example_env manager_opened 428)
             = Connecting"
    by blast+
  show ?thesis
    by (intro conjI path timer [unfolded delay] connecting 2)
qed


subsection \<open>What \<open>getSocket\<close> returns\<close>

text \<open>
  C7. \<open>getSocket\<close> returns the stored socket whatever the status. \<open>connect()\<close>
  stores the socket as soon as it is created, so after the first \<open>connect()\<close> the
  status is pairing and \<open>getSocket\<close> returns the socket; after a close with code 440
  the status is disconnected, after a close with code 428 it is connecting, and in
  both states \<open>getSocket\<close> still returns the socket. When the reconnect timer
  then fires, the status stays connecting and \<open>getSocket\<close> returns the new socket.
\<close>

theorem getSocket_returns_socket_when_not_connected:
  "conn_status manager_started = Pairing
   \<and> getSocket manager_started = Some example_socket_object
   \<and> conn_status manager_replaced = Disconnected
   \<and> getSocket manager_replaced = Some example_socket_object
   \<and> conn_status manager_reconnecting = Connecting
   \<and> getSocket manager_reconnecting = Some example_socket_object
   \<and> conn_status manager_reconnected = Connecting
   \<and> getSocket manager_reconnected = Some example_socket_object"
proof -
  have s: "manager_started = (new_manager [(''creds'', ''x'')])\<lparr>sock := Some example_socket_object\<rparr>"
    by (simp add: manager_started_def connect_def cleanupSocket_def example_env_def new_manager_def)
  have o: "sock manager_opened = Some example_socket_object"
      "retryStartedAt manager_opened = None"
    by (simp_all add: manager_opened_def s handleConnectionUpdate_def new_manager_def
          example_env_def example_socket_object_def broadcastStatus_def truthy_def Let_def)
  have r: "conn_status manager_replaced = Disconnected"
      "sock manager_replaced = Some example_socket_object"
    using o
    by (simp_all add: manager_replaced_def handleConnectionUpdate_def handleDisconnect_def
          broadcastStatus_def truthy_def Let_def)
  have w: "\<not> isRetryWindowExhausted (new_Date example_env)
               (maxRetryMs example_reconnect_config) (Date_now example_env)"
    by (simp add: isRetryWindowExhausted_def maxRetryMs_def example_env_def
          example_reconnect_config_def)
  have c: "conn_status manager_reconnecting = Connecting"
      "sock manager_reconnecting = Some example_socket_object"
    using o w
    by (simp_all add: manager_reconnecting_def handleConnectionUpdate_def handleDisconnect_def
          reconnectWithBackoff_def scheduleReconnect_def broadcastStatus_def truthy_def Let_def)
  have p: "conn_status manager_started = Pairing" "sock manager_started = Some example_socket_object"
    by (simp_all add: s new_manager_def)
  have t: "conn_status manager_reconnected = Connecting"
      "sock manager_reconnected = Some example_socket_object"
    using c
    by (simp_all add: manager_reconnected_def reconnectTimerFired_def connect_def cleanupSocket_def
          example_env_def)
  show ?thesis
    unfolding getSocket_def by (intro conjI p r c t)
qed

subsection \<open>Updating a recurring rule\<close>

text \<open>For the five kinds with a cron expression the code renders what the specification says.\<close>

lemma buildCronExpression_of_patch:
  assumes "ty \<in> {''daily'', ''weekly'', ''monthly'', ''yearly'', ''birthday''}"
  shows "buildCronExpression ty (CronParams.truncate u) d = Inr (cronOfPatch ty u d)"
  using assms
  by (auto simp: buildCronExpression_def cronOfPatch_def specCron_def CronParams.truncate_def
        Let_def split: option.splits)

lemma specCron_nonempty: "specCron kind minute hour weekday day mon \<noteq> []"
  by (simp add: specCron_def)

lemma cronExpression_setValues:
  "cronExpression (setValues u (Some c) now r) = c"
  by (simp add: setValues_def Let_def split: option.splits)

lemma rule_id_setValues: "rule_id (setValues u c now r) = rule_id r"
  by (simp add: setValues_def Let_def split: option.splits)

lemma upsertJobScheduler_lookup: "map_of (upsertJobScheduler q k v) k = Some v"
  by (simp add: upsertJobScheduler_def)

lemma removeJobScheduler_lookup: "map_of (removeJobScheduler q k) k = None"
  by (simp add: removeJobScheduler_def map_of_eq_None_iff image_iff)

text \<open>
  C10. When the patch of \<open>updateRecurringRule\<close> carries a scheduling parameter
  (\<open>sendHour\<close>, \<open>sendMinute\<close>, \<open>dayOfWeek\<close>, \<open>dayOfMonth\<close>, \<open>month\<close> or
  \<open>intervalDays\<close>) and the rule is daily, weekly, monthly, yearly or birthday, the
  update succeeds and the cron expression it returns and stores is the expression
  of the rule's kind for the parameters of the patch alone, each absent parameter
  at its built-in default (minute 0, day of week 1, day of month 1, month 1, hour
  the configured default send hour); the expression stored before does not enter.
  Every row with the id of the rule holds the new expression afterwards, the row
  returned is among them, and the rows of other rules are as they were. Unless the
  patch disables the rule, its job scheduler is registered again with that
  expression as the pattern; when the patch disables it, the scheduler is removed.
\<close>

theorem updateRecurringRule_rebuilds_cron_from_patch:
  assumes ex: "find (\<lambda>r. rule_id r = ruleId) (rules w) = Some existing"
    and ty: "rule_type existing \<in> {''daily'', ''weekly'', ''monthly'', ''yearly'', ''birthday''}"
    and patch: "needsCronUpdate u"
  shows "\<exists>rule w'.
           updateRecurringRule d w ruleId u now = Inr (Some rule, w')
         \<and> cronExpression rule = cronOfPatch (rule_type existing) u d
         \<and> rule \<in> set (rules w')
         \<and> (\<forall>r \<in> set (rules w'). rule_id r = ruleId \<longrightarrow>
               cronExpression r = cronOfPatch (rule_type existing) u d)
         \<and> (\<forall>r \<in> set (rules w'). rule_id r \<noteq> ruleId \<longrightarrow> r \<in> set (rules w))
         \<and> map rule_id (rules w') = map rule_id (rules w)
         \<and> (upd_enabled u \<noteq> Some False \<longrightarrow>
              map_of (schedulers w') (schedulerId ruleId)
                = Some \<lparr>repeat_opts = Pattern (cronOfPatch (rule_type existing) u d),
                        scheduler_endDate = endDate rule, scheduler_limit = maxOccurrences rule\<rparr>)
         \<and> (upd_enabled u = Some False \<longrightarrow>
              map_of (schedulers w') (schedulerId ruleId) = None)"
proof -
  define cron where "cron = cronOfPatch (rule_type existing) u d"
  have c: "buildCronExpression (rule_type existing) (CronParams.truncate u) d = Inr cron"
    unfolding cron_def using ty by (rule buildCronExpression_of_patch)
  have ne: "cron \<noteq> []"
    by (simp add: cron_def cronOfPatch_def specCron_nonempty)
  have nc: "rule_type existing \<noteq> ''custom''"
    using ty by auto
  let ?p = "\<lambda>r. rule_id r = ruleId"
  let ?f = "setValues u (Some cron) now"
  let ?rule = "?f existing"
  let ?rows = "update_where ?p ?f (rules w)"
  have id: "rule_id existing = ruleId"
    using ex by (rule find_key)
  have mem: "existing \<in> set (rules w)"
    using ex by (auto simp: find_Some_iff)
  have stored: "?rule \<in> set ?rows"
    using mem id by (intro update_where_mem) simp_all
  have all: "\<forall>r \<in> set ?rows. rule_id r = ruleId \<longrightarrow> cronExpression r = cron"
  proof (intro ballI impI)
    fix r
    assume "r \<in> set ?rows" and r: "rule_id r = ruleId"
    then consider "r \<in> set (rules w)" "\<not> ?p r" | r0 where "r = ?f r0"
      using update_where_cases [of r ?p ?f "rules w"] by blast
    then show "cronExpression r = cron"
    proof cases
      case 1
      then show ?thesis using r by simp
    next
      case 2
      then show ?thesis by (simp only: cronExpression_setValues)
    qed
  qed
  have others: "\<forall>r \<in> set ?rows. rule_id r \<noteq> ruleId \<longrightarrow> r \<in> set (rules w)"
  proof (intro ballI impI)
    fix r
    assume "r \<in> set ?rows" and r: "rule_id r \<noteq> ruleId"
    then consider "r \<in> set (rules w)" "\<not> ?p r" | r0 where "?p r0" "r = ?f r0"
      using update_where_cases [of r ?p ?f "rules w"] by blast
    then show "r \<in> set (rules w)"
    proof cases
      case 1
      then show ?thesis by simp
    next
      case 2
      then have "rule_id r = ruleId" by (simp only: rule_id_setValues)
      then show ?thesis using r by simp
    qed
  qed
  have ids: "map rule_id ?rows = map rule_id (rules w)"
    by (rule map_key_update_where) (rule rule_id_setValues)
  show ?thesis
  proof (cases "upd_enabled u = Some False")
    case True
    have "updateRecurringRule d w ruleId u now =
            Inr (Some ?rule,
                 w\<lparr>rules := ?rows,
                    schedulers := removeJobScheduler (schedulers w) (schedulerId ruleId)\<rparr>)"
      using ex patch c ne True
      by (simp add: updateRecurringRule_def returning_get_def Let_def)
    then show ?thesis
      unfolding cron_def [symmetric]
      using True stored all others ids
      by (auto simp: cronExpression_setValues removeJobScheduler_lookup)
  next
    case False
    have "updateRecurringRule d w ruleId u now =
            Inr (Some ?rule,
                 w\<lparr>rules := ?rows,
                    schedulers := upsertJobScheduler (schedulers w) (schedulerId ruleId)
                       \<lparr>repeat_opts = Pattern cron, scheduler_endDate = endDate ?rule,
                        scheduler_limit = maxOccurrences ?rule\<rparr>\<rparr>)"
      using ex patch c ne False nc
      by (simp add: updateRecurringRule_def returning_get_def Let_def)
    then show ?thesis
      unfolding cron_def [symmetric]
      using False stored all others ids
      by (auto simp: cronExpression_setValues upsertJobScheduler_lookup)
  qed
qed

theorem updateRecurringRule_rebuilds_cron_from_patch_witness:
  "cronExpression example_rule = ''0 30 18 * * 5''
   \<and> (\<exists>rule w'. updateRecurringRule 9 example_rule_world ''r1'' hour_patch 1700000005000
                   = Inr (Some rule, w')
               \<and> cronExpression rule = ''0 0 10 * * 1''
               \<and> map cronExpression (rules w') = [''0 0 10 * * 1'']
               \<and> map_of (schedulers w') (schedulerId ''r1'')
                   = Some \<lparr>repeat_opts = Pattern ''0 0 10 * * 1'', scheduler_endDate = endDate rule,
                           scheduler_limit = maxOccurrences rule\<rparr>)
   \<and> (\<exists>rule w'. updateRecurringRule 9 monthly_rule_world ''r1'' month_end_patch 1700000005000
                   = Inr (Some rule, w')
               \<and> cronExpression rule = ''0 45 9 L * *''
               \<and> map cronExpression (rules w') = [''0 45 9 L * *''])
   \<and> (\<exists>rule w'. updateRecurringRule 9 birthday_rule_world ''r1''
                     (birthday_patch\<lparr>upd_enabled := Some False\<rparr>) 1700000005000
                   = Inr (Some rule, w')
               \<and> cronExpression rule = ''0 0 9 15 3 *''
               \<and> map cronExpression (rules w') = [''0 0 9 15 3 *'']
               \<and> map_of (schedulers w') (schedulerId ''r1'') = None)
   \<and> (\<exists>rule w'. updateRecurringRule 9 two_rule_world ''r1'' hour_patch 1700000005000
                   = Inr (Some rule, w')
               \<and> map rule_id (rules w') = [''r0'', ''r1'']
               \<and> map cronExpression (rules w') = [''0 0 7 * * *'', ''0 0 10 * * 1''])"
proof -
  have old: "cronExpression example_rule = ''0 30 18 * * 5''"
    by (simp add: example_rule_def)
  have single: "map cronExpression rows = [c]"
    if "map rule_id rows = [''r1'']" "\<forall>r \<in> set rows. rule_id r = ''r1'' \<longrightarrow> cronExpression r = c"
    for rows :: "recurringRule list" and c
    using that by (cases rows) auto
  have pair: "map cronExpression rows = [''0 0 7 * * *'', c]"
    if "map rule_id rows = [''r0'', ''r1'']"
      "\<forall>r \<in> set rows. rule_id r = ''r1'' \<longrightarrow> cronExpression r = c"
      "\<forall>r \<in> set rows. rule_id r \<noteq> ''r1'' \<longrightarrow> r \<in> set (rules two_rule_world)"
    for rows :: "recurringRule list" and c
  proof -
    have "\<exists>a b. rows = [a, b] \<and> rule_id a = ''r0'' \<and> rule_id b = ''r1''"
      using that(1) by (auto simp: map_eq_Cons_conv)
    then obtain a b where rows: "rows = [a, b]" and ids: "rule_id a = ''r0''" "rule_id b = ''r1''"
      by blast
    have "a \<in> set (rules two_rule_world)"
      using that(3) rows ids by simp
    then have "cronExpression a = ''0 0 7 * * *''"
      using ids by (auto simp: two_rule_world_def example_rule_world_def example_rule_def)
    moreover have "cronExpression b = c"
      using that(2) rows ids by simp
    ultimately show ?thesis
      using rows by simp
  qed
  have two: "find (\<lambda>r. rule_id r = ''r1'') (rules two_rule_world) = Some example_rule"
      "map rule_id (rules two_rule_world) = [''r0'', ''r1'']"
    by (simp_all add: two_rule_world_def example_rule_world_def example_rule_def)
  have weekly: "find (\<lambda>r. rule_id r = ''r1'') (rules example_rule_world) = Some example_rule"
      "rule_type example_rule \<in> {''daily'', ''weekly'', ''monthly'', ''yearly'', ''birthday''}"
      "needsCronUpdate hour_patch" "upd_enabled hour_patch \<noteq> Some False"
      "map rule_id (rules example_rule_world) = [''r1'']"
      "cronOfPatch (rule_type example_rule) hour_patch 9 = ''0 0 10 * * 1''"
    by (simp_all add: example_rule_world_def example_rule_def needsCronUpdate_def hour_patch_def
          cronOfPatch_def specCron_def show_int_def show_nat.simps digit_char_def)
  have monthly: "find (\<lambda>r. rule_id r = ''r1'') (rules monthly_rule_world)
                   = Some (example_rule\<lparr>rule_type := ''monthly''\<rparr>)"
      "rule_type (example_rule\<lparr>rule_type := ''monthly''\<rparr>)
         \<in> {''daily'', ''weekly'', ''monthly'', ''yearly'', ''birthday''}"
      "needsCronUpdate month_end_patch"
      "map rule_id (rules monthly_rule_world) = [''r1'']"
      "cronOfPatch (rule_type (example_rule\<lparr>rule_type := ''monthly''\<rparr>)) month_end_patch 9
         = ''0 45 9 L * *''"
    by (simp_all add: monthly_rule_world_def example_rule_world_def example_rule_def
          needsCronUpdate_def month_end_patch_def hour_patch_def cronOfPatch_def specCron_def
          show_int_def show_nat.simps digit_char_def)
  have birthday: "find (\<lambda>r. rule_id r = ''r1'') (rules birthday_rule_world)
                   = Some (example_rule\<lparr>rule_type := ''birthday''\<rparr>)"
      "rule_type (example_rule\<lparr>rule_type := ''birthday''\<rparr>)
         \<in> {''daily'', ''weekly'', ''monthly'', ''yearly'', ''birthday''}"
      "needsCronUpdate (birthday_patch\<lparr>upd_enabled := Some False\<rparr>)"
      "upd_enabled (birthday_patch\<lparr>upd_enabled := Some False\<rparr>) = Some False"
      "map rule_id (rules birthday_rule_world) = [''r1'']"
      "cronOfPatch (rule_type (example_rule\<lparr>rule_type := ''birthday''\<rparr>))
         (birthday_patch\<lparr>upd_enabled := Some False\<rparr>) 9 = ''0 0 9 15 3 *''"
    by (simp_all add: birthday_rule_world_def example_rule_world_def example_rule_def
          needsCronUpdate_def birthday_patch_def hour_patch_def cronOfPatch_def specCron_def
          show_int_def show_nat.simps digit_char_def)
  have 1: "\<exists>rule w'. updateRecurringRule 9 example_rule_world ''r1'' hour_patch 1700000005000
                   = Inr (Some rule, w')
               \<and> cronExpression rule = ''0 0 10 * * 1''
               \<and> map cronExpression (rules w') = [''0 0 10 * * 1'']
               \<and> map_of (schedulers w') (schedulerId ''r1'')
                   = Some \<lparr>repeat_opts = Pattern ''0 0 10 * * 1'', scheduler_endDate = endDate rule,
                           scheduler_limit = maxOccurrences rule\<rparr>"
    using updateRecurringRule_rebuilds_cron_from_patch
            [OF weekly(1) weekly(2) weekly(3), of 9 1700000005000]
    unfolding weekly(5) weekly(6)
    using weekly(4) single [where c = "''0 0 10 * * 1''"] by (elim exE conjE) (intro exI conjI, simp_all)
  have 2: "\<exists>rule w'. updateRecurringRule 9 monthly_rule_world ''r1'' month_end_patch 1700000005000
                   = Inr (Some rule, w')
               \<and> cronExpression rule = ''0 45 9 L * *''
               \<and> map cronExpression (rules w') = [''0 45 9 L * *'']"
    using updateRecurringRule_rebuilds_cron_from_patch
            [OF monthly(1) monthly(2) monthly(3), of 9 1700000005000]
    unfolding monthly(4) monthly(5)
    using single [where c = "''0 45 9 L * *''"] by (elim exE conjE) (intro exI conjI, simp_all)
  have 3: "\<exists>rule w'. updateRecurringRule 9 birthday_rule_world ''r1''
                     (birthday_patch\<lparr>upd_enabled := Some False\<rparr>) 1700000005000
                   = Inr (Some rule, w')
               \<and> cronExpression rule = ''0 0 9 15 3 *''
               \<and> map cronExpression (rules w') = [''0 0 9 15 3 *'']
               \<and> map_of (schedulers w') (schedulerId ''r1'') = None"
    using updateRecurringRule_rebuilds_cron_from_patch
            [OF birthday(1) birthday(2) birthday(3), of 9 1700000005000]
    unfolding birthday(5) birthday(6)
    using birthday(4) single [where c = "''0 0 9 15 3 *''"] by (elim exE conjE) (intro exI conjI, simp_all)
  have 4: "\<exists>rule w'. updateRecurringRule 9 two_rule_world ''r1'' hour_patch 1700000005000
                   = Inr (Some rule, w')
               \<and> map rule_id (rules w') = [''r0'', ''r1'']
               \<and> map cronExpression (rules w') = [''0 0 7 * * *'', ''0 0 10 * * 1'']"
    using updateRecurringRule_rebuilds_cron_from_patch
            [OF two(1) weekly(2) weekly(3), of 9 1700000005000]
    unfolding two(2) weekly(6)
    using pair [where c = "''0 0 10 * * 1''"] by (elim exE conjE) (intro exI conjI, simp_all)
  show ?thesis
    by (intro conjI old 1 2 3 4)
qed



subsection \<open>The vault: what \<open>decrypt\<close> checks\<close>

lemma at_least_four:
  assumes "4 \<le> length ps"
  shows "\<exists>a b c d rest. ps = a # b # c # d # rest"
  using assms by (auto simp: numeral_eq_Suc Suc_le_length_iff)

lemma fewer_than_four:
  assumes "length ps < 4"
  shows "(case ps of a # b # c # d # rest \<Rightarrow> f a b c d | _ \<Rightarrow> g) = g"
  using assms by (auto split: list.splits)

lemma split_on_nonempty: "split_on c s \<noteq> []"
  by (induction s) (auto split: list.splits)

lemma split_on_append_sep:
  "split_on c (s @ c # t) = split_on c s @ split_on c t"
proof (induction s)
  case Nil
  show ?case by simp
next
  case (Cons x s)
  obtain p ps where s: "split_on c s = p # ps"
    using split_on_nonempty [of c s] by (cases "split_on c s") auto
  show ?case using Cons.IH s by simp
qed




lemma decrypt_too_few_parts:
  assumes "length (split_on CHR '':'' s) < 4"
  shows "decrypt lib s k = Inl TypeError"
  unfolding decrypt_def using assms by (rule fewer_than_four)

lemma decrypt_four_parts:
  assumes "split_on CHR '':'' s = saltB64 # ivB64 # tagB64 # dataB64 # rest"
  shows "decrypt lib s k =
           (case createDecipheriv lib (deriveKey lib k (bufferFromBase64 lib saltB64))
                   (bufferFromBase64 lib ivB64) TAG_LENGTH of
              Some e \<Rightarrow> Inl (CryptoError e)
            | None \<Rightarrow>
                (case setAuthTag lib TAG_LENGTH (bufferFromBase64 lib tagB64) of
                   Some e \<Rightarrow> Inl (CryptoError e)
                 | None \<Rightarrow>
                     (case decipherUpdateFinal lib (deriveKey lib k (bufferFromBase64 lib saltB64))
                             (bufferFromBase64 lib ivB64) (bufferFromBase64 lib tagB64)
                             (bufferFromBase64 lib dataB64) of
                        Inl e \<Rightarrow> Inl (CryptoError e)
                      | Inr plain \<Rightarrow> Inr (utf8ToString lib plain))))"
  using assms by (simp add: decrypt_def Let_def)

lemma decrypt_ignores_extra_parts:
  assumes "4 \<le> length (split_on CHR '':'' s)"
  shows "decrypt lib (s @ CHR '':'' # junk) k = decrypt lib s k"
proof -
  obtain a b c d rest where s: "split_on CHR '':'' s = a # b # c # d # rest"
    using at_least_four [OF assms] by blast
  have "split_on CHR '':'' (s @ CHR '':'' # junk) = a # b # c # d # (rest @ split_on CHR '':'' junk)"
    by (simp add: split_on_append_sep s)
  then show ?thesis
    by (simp add: decrypt_four_parts [OF s] decrypt_four_parts)
qed

lemma decrypt_refused_by_createDecipheriv:
  assumes "split_on CHR '':'' s = saltB64 # ivB64 # tagB64 # dataB64 # rest"
    and "createDecipheriv lib (deriveKey lib k (bufferFromBase64 lib saltB64))
           (bufferFromBase64 lib ivB64) TAG_LENGTH = Some e"
  shows "decrypt (lib\<lparr>decipherUpdateFinal := f\<rparr>) s k = Inl (CryptoError e)"
  using assms(2) by (simp add: decrypt_four_parts [OF assms(1)] deriveKey_def)

lemma decrypt_refused_by_setAuthTag:
  assumes "split_on CHR '':'' s = saltB64 # ivB64 # tagB64 # dataB64 # rest"
    and "createDecipheriv lib (deriveKey lib k (bufferFromBase64 lib saltB64))
           (bufferFromBase64 lib ivB64) TAG_LENGTH = None"
    and "setAuthTag lib TAG_LENGTH (bufferFromBase64 lib tagB64) = Some e"
  shows "decrypt (lib\<lparr>decipherUpdateFinal := f\<rparr>) s k = Inl (CryptoError e)"
  using assms(2,3) by (simp add: decrypt_four_parts [OF assms(1)] deriveKey_def)

text \<open>The recorded library, field by field, and the facts that evaluate it.\<close>

lemma node_crypto_sel:
  "bufferFromBase64 node_crypto = base64_decode"
  "toBase64 node_crypto = base64_encode"
  "bufferFromUtf8 node_crypto = map of_char"
  "utf8ToString node_crypto = map char_of_code"
  "scryptSync node_crypto password salt keylen =
     (if keylen = 32 then recorded scrypt_values (password, salt) else [])"
  "createCipheriv node_crypto = cipheriv_error"
  "createDecipheriv node_crypto = cipheriv_error"
  "cipherUpdateFinal node_crypto key iv data = recorded gcm_ctr_values (key, iv, data)"
  "getAuthTag node_crypto key iv n data =
     take n (recorded gcm_tag_values (key, iv, recorded gcm_ctr_values (key, iv, data)))"
  "setAuthTag node_crypto n tag =
     (if length tag = n then None
      else Some (''Invalid authentication tag length: '' @ show_nat (length tag)))"
  "decipherUpdateFinal node_crypto key iv tag data =
     (if tag = recorded gcm_tag_values (key, iv, data)
      then Inr (recorded gcm_ctr_values (key, iv, data))
      else Inl ''Unsupported state or unable to authenticate data'')"
  by (simp_all add: node_crypto_def)

lemmas node_crypto_eval = node_crypto_sel base64_decode_def unbase64_def base64_alphabet_def
  recorded_def scrypt_values_def gcm_ctr_values_def gcm_tag_values_def cipheriv_error_def
  example_salt_def example_iv_def second_salt_def second_iv_def short_salt_def long_iv_def
  example_key_def other_key_def second_key_def short_salt_key_def
  deriveKey_def KEY_LENGTH_def TAG_LENGTH_def SALT_LENGTH_def IV_LENGTH_def
  List.map_filter_def Let_def char_of_code_def show_nat.simps digit_char_def

text \<open>
  C8, as the code has it. For any library and any master key, \<open>decrypt\<close> fails before
  the data is decrypted on an input with fewer than four colon-separated parts (the
  TypeError, before the key is derived), and on an input with four parts or more
  whose key and nonce \<open>createDecipheriv\<close> refuses or whose tag \<open>setAuthTag\<close> refuses
  under \<open>authTagLength: 16\<close>: the result is that error whatever the decipher would
  do with the data. When both accept, the result is the decipher's. The parts after
  the fourth are never read: appending a separator and anything else to an input with
  four parts does not change the result.
\<close>

theorem decrypt_rejects_before_decryption:
  "(length (split_on CHR '':'' s) < 4 \<longrightarrow> decrypt lib s k = Inl TypeError)
   \<and> (\<forall>saltB64 ivB64 tagB64 dataB64 rest.
        split_on CHR '':'' s = saltB64 # ivB64 # tagB64 # dataB64 # rest \<longrightarrow>
          (\<forall>e. createDecipheriv lib (deriveKey lib k (bufferFromBase64 lib saltB64))
                  (bufferFromBase64 lib ivB64) TAG_LENGTH = Some e \<longrightarrow>
                (\<forall>f. decrypt (lib\<lparr>decipherUpdateFinal := f\<rparr>) s k = Inl (CryptoError e)))
          \<and> (\<forall>e. createDecipheriv lib (deriveKey lib k (bufferFromBase64 lib saltB64))
                    (bufferFromBase64 lib ivB64) TAG_LENGTH = None \<longrightarrow>
                  setAuthTag lib TAG_LENGTH (bufferFromBase64 lib tagB64) = Some e \<longrightarrow>
                  (\<forall>f. decrypt (lib\<lparr>decipherUpdateFinal := f\<rparr>) s k = Inl (CryptoError e)))
          \<and> (createDecipheriv lib (deriveKey lib k (bufferFromBase64 lib saltB64))
                  (bufferFromBase64 lib ivB64) TAG_LENGTH = None \<longrightarrow>
               setAuthTag lib TAG_LENGTH (bufferFromBase64 lib tagB64) = None \<longrightarrow>
               decrypt lib s k =
                 (case decipherUpdateFinal lib (deriveKey lib k (bufferFromBase64 lib saltB64))
                         (bufferFromBase64 lib ivB64) (bufferFromBase64 lib tagB64)
                         (bufferFromBase64 lib dataB64) of
                    Inl e \<Rightarrow> Inl (CryptoError e)
                  | Inr plain \<Rightarrow> Inr (utf8ToString lib plain))))
   \<and> (4 \<le> length (split_on CHR '':'' s) \<longrightarrow>
        decrypt lib (s @ CHR '':'' # junk) k = decrypt lib s k)"
proof (intro conjI allI impI)
  assume "length (split_on CHR '':'' s) < 4"
  then show "decrypt lib s k = Inl TypeError"
    by (rule decrypt_too_few_parts)
next
  fix saltB64 ivB64 tagB64 dataB64 rest e f
  assume "split_on CHR '':'' s = saltB64 # ivB64 # tagB64 # dataB64 # rest"
    and "createDecipheriv lib (deriveKey lib k (bufferFromBase64 lib saltB64))
           (bufferFromBase64 lib ivB64) TAG_LENGTH = Some e"
  then show "decrypt (lib\<lparr>decipherUpdateFinal := f\<rparr>) s k = Inl (CryptoError e)"
    by (rule decrypt_refused_by_createDecipheriv)
next
  fix saltB64 ivB64 tagB64 dataB64 rest e f
  assume "split_on CHR '':'' s = saltB64 # ivB64 # tagB64 # dataB64 # rest"
    and "createDecipheriv lib (deriveKey lib k (bufferFromBase64 lib saltB64))
           (bufferFromBase64 lib ivB64) TAG_LENGTH = None"
    and "setAuthTag lib TAG_LENGTH (bufferFromBase64 lib tagB64) = Some e"
  then show "decrypt (lib\<lparr>decipherUpdateFinal := f\<rparr>) s k = Inl (CryptoError e)"
    by (rule decrypt_refused_by_setAuthTag)
next
  fix saltB64 ivB64 tagB64 dataB64 rest
  assume s: "split_on CHR '':'' s = saltB64 # ivB64 # tagB64 # dataB64 # rest"
    and "createDecipheriv lib (deriveKey lib k (bufferFromBase64 lib saltB64))
           (bufferFromBase64 lib ivB64) TAG_LENGTH = None"
    and "setAuthTag lib TAG_LENGTH (bufferFromBase64 lib tagB64) = None"
  then show "decrypt lib s k =
                 (case decipherUpdateFinal lib (deriveKey lib k (bufferFromBase64 lib saltB64))
                         (bufferFromBase64 lib ivB64) (bufferFromBase64 lib tagB64)
                         (bufferFromBase64 lib dataB64) of
                    Inl e \<Rightarrow> Inl (CryptoError e)
                  | Inr plain \<Rightarrow> Inr (utf8ToString lib plain))"
    by (simp add: decrypt_four_parts [OF s])
next
  assume "4 \<le> length (split_on CHR '':'' s)"
  then show "decrypt lib (s @ CHR '':'' # junk) k = decrypt lib s k"
    by (rule decrypt_ignores_extra_parts)
qed

lemma example_ciphertext_parts:
  "split_on CHR '':'' ''EBESExQVFhcYGRobHB0eHw==:AQIDBAUGBwgJCgsM:Odsx9bZsmi8PYasWyI/84A==:HohmWxNg''
     = [''EBESExQVFhcYGRobHB0eHw=='', ''AQIDBAUGBwgJCgsM'', ''Odsx9bZsmi8PYasWyI/84A=='', ''HohmWxNg'']"
  by simp

theorem decrypt_rejects_before_decryption_witness:
  "decrypt node_crypto ''EBESExQVFhcYGRobHB0eHw==:AQIDBAUGBwgJCgsM:Odsx9bZsmi8PYasWyI/84A==''
       ''master-key-1'' = Inl TypeError
   \<and> decrypt node_crypto ''EBESExQVFhcYGRobHB0eHw==::Odsx9bZsmi8PYasWyI/84A==:HohmWxNg''
       ''master-key-1'' = Inl (CryptoError ''Invalid initialization vector'')
   \<and> decrypt node_crypto ''EBESExQVFhcYGRobHB0eHw==:AQIDBAUGBwgJCgsM:Odsx9bZsmi8PYasW:HohmWxNg''
       ''master-key-1'' = Inl (CryptoError ''Invalid authentication tag length: 12'')
   \<and> decrypt node_crypto
         ''EBESExQVFhcYGRobHB0eHw==:AQIDBAUGBwgJCgsM:Odsx9bZsmi8PYasWyI/84A==:HohmWxNg''
         ''master-key-1'' = Inr ''secret''
   \<and> decrypt node_crypto
         (''EBESExQVFhcYGRobHB0eHw==:AQIDBAUGBwgJCgsM:Odsx9bZsmi8PYasWyI/84A==:HohmWxNg''
            @ CHR '':'' # ''extra'')
         ''master-key-1''
       = decrypt node_crypto
           ''EBESExQVFhcYGRobHB0eHw==:AQIDBAUGBwgJCgsM:Odsx9bZsmi8PYasWyI/84A==:HohmWxNg''
           ''master-key-1''"
proof -
  let ?c = "''EBESExQVFhcYGRobHB0eHw==:AQIDBAUGBwgJCgsM:Odsx9bZsmi8PYasWyI/84A==:HohmWxNg''"
  let ?three = "''EBESExQVFhcYGRobHB0eHw==:AQIDBAUGBwgJCgsM:Odsx9bZsmi8PYasWyI/84A==''"
  let ?noiv = "''EBESExQVFhcYGRobHB0eHw==::Odsx9bZsmi8PYasWyI/84A==:HohmWxNg''"
  let ?tag12 = "''EBESExQVFhcYGRobHB0eHw==:AQIDBAUGBwgJCgsM:Odsx9bZsmi8PYasW:HohmWxNg''"
  let ?k = "''master-key-1''"
  have same: "node_crypto\<lparr>decipherUpdateFinal := decipherUpdateFinal node_crypto\<rparr> = node_crypto"
    by simp
  have three: "length (split_on CHR '':'' ?three) < 4"
    by simp
  have 1: "decrypt node_crypto ?three ?k = Inl TypeError"
    using decrypt_rejects_before_decryption [of ?three node_crypto ?k] three by blast
  have noiv: "split_on CHR '':'' ?noiv
                = ''EBESExQVFhcYGRobHB0eHw=='' # [] # ''Odsx9bZsmi8PYasWyI/84A=='' # ''HohmWxNg'' # []"
    by simp
  have noiv_refused: "createDecipheriv node_crypto
                        (deriveKey node_crypto ?k (bufferFromBase64 node_crypto ''EBESExQVFhcYGRobHB0eHw==''))
                        (bufferFromBase64 node_crypto []) TAG_LENGTH
                      = Some ''Invalid initialization vector''"
    by (simp add: node_crypto_eval)
  have 2: "decrypt node_crypto ?noiv ?k = Inl (CryptoError ''Invalid initialization vector'')"
    using decrypt_rejects_before_decryption
            [of ?noiv node_crypto ?k, THEN conjunct2, THEN conjunct1, rule_format, OF noiv,
             THEN conjunct1, rule_format, OF noiv_refused, of "decipherUpdateFinal node_crypto"]
    unfolding same .
  have tag12: "split_on CHR '':'' ?tag12
                = ''EBESExQVFhcYGRobHB0eHw=='' # ''AQIDBAUGBwgJCgsM'' # ''Odsx9bZsmi8PYasW'' # ''HohmWxNg'' # []"
    by simp
  have created: "createDecipheriv node_crypto
                   (deriveKey node_crypto ?k (bufferFromBase64 node_crypto ''EBESExQVFhcYGRobHB0eHw==''))
                   (bufferFromBase64 node_crypto ''AQIDBAUGBwgJCgsM'') TAG_LENGTH = None"
    by (simp add: node_crypto_eval)
  have tag12_refused: "setAuthTag node_crypto TAG_LENGTH (bufferFromBase64 node_crypto ''Odsx9bZsmi8PYasW'')
                       = Some ''Invalid authentication tag length: 12''"
    by (simp add: node_crypto_eval)
  have 3: "decrypt node_crypto ?tag12 ?k = Inl (CryptoError ''Invalid authentication tag length: 12'')"
    using decrypt_rejects_before_decryption
            [of ?tag12 node_crypto ?k, THEN conjunct2, THEN conjunct1, rule_format, OF tag12,
             THEN conjunct2, THEN conjunct1, rule_format, OF created tag12_refused,
             of "decipherUpdateFinal node_crypto"]
    unfolding same .
  have tag_set: "setAuthTag node_crypto TAG_LENGTH (bufferFromBase64 node_crypto ''Odsx9bZsmi8PYasWyI/84A=='')
                 = None"
    by (simp add: node_crypto_eval)
  have final: "decipherUpdateFinal node_crypto
                 (deriveKey node_crypto ?k (bufferFromBase64 node_crypto ''EBESExQVFhcYGRobHB0eHw==''))
                 (bufferFromBase64 node_crypto ''AQIDBAUGBwgJCgsM'')
                 (bufferFromBase64 node_crypto ''Odsx9bZsmi8PYasWyI/84A=='')
                 (bufferFromBase64 node_crypto ''HohmWxNg'')
               = Inr [115, 101, 99, 114, 101, 116]"
    by (simp add: node_crypto_eval)
  have "decrypt node_crypto ?c ?k =
          (case decipherUpdateFinal node_crypto
                 (deriveKey node_crypto ?k (bufferFromBase64 node_crypto ''EBESExQVFhcYGRobHB0eHw==''))
                 (bufferFromBase64 node_crypto ''AQIDBAUGBwgJCgsM'')
                 (bufferFromBase64 node_crypto ''Odsx9bZsmi8PYasWyI/84A=='')
                 (bufferFromBase64 node_crypto ''HohmWxNg'') of
             Inl e \<Rightarrow> Inl (CryptoError e)
           | Inr plain \<Rightarrow> Inr (utf8ToString node_crypto plain))"
    using decrypt_rejects_before_decryption
            [of ?c node_crypto ?k, THEN conjunct2, THEN conjunct1, rule_format,
             OF example_ciphertext_parts, THEN conjunct2, THEN conjunct2, rule_format,
             OF created tag_set] .
  then have 4: "decrypt node_crypto ?c ?k = Inr ''secret''"
    unfolding final by (simp add: node_crypto_sel char_of_code_def)
  have "4 \<le> length (split_on CHR '':'' ?c)"
    unfolding example_ciphertext_parts by simp
  then have 5: "decrypt node_crypto (?c @ CHR '':'' # ''extra'') ?k = decrypt node_crypto ?c ?k"
    using decrypt_rejects_before_decryption [of ?c node_crypto ?k "''extra''"] by blast
  show ?thesis
    by (intro conjI 1 2 3 4 5)
qed

text \<open>
  The claim as stated fails at inputs that the specification calls malformed and that
  \<open>decrypt\<close> turns into a plaintext. The first has five parts: it is a ciphertext of
  \<open>encrypt\<close> for the plaintext \<open>secret\<close> under the master key \<open>master-key-1\<close>, with a
  separator and the word \<open>extra\<close> appended. The second has a salt of 8 bytes, the third
  a nonce of 16 bytes; both have a tag that verifies under the key derived from that
  salt and with that nonce. \<open>decrypt\<close> checks neither the number of parts beyond the
  fourth nor the size of the salt or of the nonce, and the library accepts a salt
  and a nonce of these sizes.
\<close>

theorem decrypt_accepts_malformed_inputs:
  "malformed node_crypto
     ''EBESExQVFhcYGRobHB0eHw==:AQIDBAUGBwgJCgsM:Odsx9bZsmi8PYasWyI/84A==:HohmWxNg:extra''
   \<and> decrypt node_crypto
         ''EBESExQVFhcYGRobHB0eHw==:AQIDBAUGBwgJCgsM:Odsx9bZsmi8PYasWyI/84A==:HohmWxNg:extra''
         ''master-key-1'' = Inr ''secret''
   \<and> malformed node_crypto ''AQIDBAUGBwg=:AQIDBAUGBwgJCgsM:W0FkRLdEB2v8kdGUiJ0EUg==:Glnz63UE''
   \<and> decrypt node_crypto ''AQIDBAUGBwg=:AQIDBAUGBwgJCgsM:W0FkRLdEB2v8kdGUiJ0EUg==:Glnz63UE''
         ''master-key-1'' = Inr ''secret''
   \<and> malformed node_crypto
         ''EBESExQVFhcYGRobHB0eHw==:AQIDBAUGBwgJCgsMDQ4PEA==:O5G4P2wV/gFAmCJrQKdQfQ==:ZtObWcin''
   \<and> decrypt node_crypto
         ''EBESExQVFhcYGRobHB0eHw==:AQIDBAUGBwgJCgsMDQ4PEA==:O5G4P2wV/gFAmCJrQKdQfQ==:ZtObWcin''
         ''master-key-1'' = Inr ''secret''"
proof -
  have 1: "malformed node_crypto
     ''EBESExQVFhcYGRobHB0eHw==:AQIDBAUGBwgJCgsM:Odsx9bZsmi8PYasWyI/84A==:HohmWxNg:extra''"
    by (simp add: malformed_def)
  have 2: "decrypt node_crypto
         ''EBESExQVFhcYGRobHB0eHw==:AQIDBAUGBwgJCgsM:Odsx9bZsmi8PYasWyI/84A==:HohmWxNg:extra''
         ''master-key-1'' = Inr ''secret''"
    by (simp add: decrypt_def node_crypto_eval)
  have 3: "malformed node_crypto ''AQIDBAUGBwg=:AQIDBAUGBwgJCgsM:W0FkRLdEB2v8kdGUiJ0EUg==:Glnz63UE''"
    by (simp add: malformed_def node_crypto_eval)
  have 4: "decrypt node_crypto ''AQIDBAUGBwg=:AQIDBAUGBwgJCgsM:W0FkRLdEB2v8kdGUiJ0EUg==:Glnz63UE''
         ''master-key-1'' = Inr ''secret''"
    by (simp add: decrypt_def node_crypto_eval)
  have 5: "malformed node_crypto
         ''EBESExQVFhcYGRobHB0eHw==:AQIDBAUGBwgJCgsMDQ4PEA==:O5G4P2wV/gFAmCJrQKdQfQ==:ZtObWcin''"
    by (simp add: malformed_def node_crypto_eval)
  have 6: "decrypt node_crypto
         ''EBESExQVFhcYGRobHB0eHw==:AQIDBAUGBwgJCgsMDQ4PEA==:O5G4P2wV/gFAmCJrQKdQfQ==:ZtObWcin''
         ''master-key-1'' = Inr ''secret''"
    by (simp add: decrypt_def node_crypto_eval)
  show ?thesis
    by (intro conjI 1 2 3 4 5 6)
qed


subsection \<open>The vault: round trip\<close>






end
